theory Spec2Isabelle
  imports Complex_Main
begin

chapter \<open>The model\<close>

section \<open>JavaScript values\<close>

text \<open>
  A JavaScript number is a finite value, \<open>NaN\<close> or an infinity.  Finite values are
  rationals.  The results of the divisions and multiplications the program computes, and
  the numbers it parses from strings, are rounded to IEEE 754 binary64 by \<open>double\<close> and
  \<open>binary64\<close> below; literals and small integers are taken as they are.  The sign of
  zero is left out of the model.  A vendor payload is a JSON value; \<open>JUndefined\<close> is what
  reading a missing property gives.
\<close>

datatype number = Fin rat | NaN | PosInf | NegInf

datatype json =
    JUndefined
  | JNull
  | JBool bool
  | JNum number
  | JStr string
  | JArr "json list"
  | JObj "(string \<times> json) list"

subsection \<open>Rounding to binary64\<close>

text \<open>
  The nearest binary64 value of a rational, ties to even: the value is scaled by a power
  of two so that its integer part has 53 bits (\<open>ilog2\<close> is the exponent of the power of
  two at or below it), rounded to an integer and scaled back.  \<open>double\<close> is the rounding
  with no bound on the exponent, which is the rounding of the normal range: the
  arithmetic of the program is on percentages and seconds.  \<open>binary64\<close> adds the two
  ends of the range, which a number parsed from a string can reach: below \<open>2\<^sup>-\<^sup>1\<^sup>0\<^sup>2\<^sup>2\<close>
  the values are the multiples of \<open>2\<^sup>-\<^sup>1\<^sup>0\<^sup>7\<^sup>4\<close>, and a value that rounds to \<open>2\<^sup>1\<^sup>0\<^sup>2\<^sup>4\<close> or
  beyond is an infinity.
\<close>

fun bitLength :: "nat \<Rightarrow> nat" where
  "bitLength n = (if n = 0 then 0 else Suc (bitLength (n div 2)))"

definition ilog2 :: "rat \<Rightarrow> int" where
  "ilog2 x =
     (if 1 \<le> x then int (bitLength (nat \<lfloor>x\<rfloor>)) - 1
      else - int (bitLength (nat (\<lceil>1 / x\<rceil> - 1))))"

definition roundNearestEven :: "rat \<Rightarrow> int" where
  "roundNearestEven m =
     (let f = \<lfloor>m\<rfloor>; d = m - of_int f
      in if d < 1 / 2 then f else if 1 / 2 < d then f + 1 else if even f then f else f + 1)"

definition double :: "rat \<Rightarrow> rat" where
  "double x =
     (if x = 0 then 0
      else let s = power_int 2 (52 - ilog2 \<bar>x\<bar>)
           in sgn x * of_int (roundNearestEven (\<bar>x\<bar> * s)) / s)"

definition binary64 :: "rat \<Rightarrow> number" where
  "binary64 x =
     (if \<bar>x\<bar> < 1 / 2 ^ 1022 then
        Fin (sgn x * of_int (roundNearestEven (\<bar>x\<bar> * 2 ^ 1074)) / 2 ^ 1074)
      else if 2 ^ 1024 \<le> \<bar>double x\<bar> then (if 0 < x then PosInf else NegInf)
      else Fin (double x))"

subsection \<open>Truthiness and property access\<close>

text \<open>\<open>ToBoolean\<close>, as used by \<open>!x\<close>, \<open>!!x\<close> and \<open>if (x)\<close>.\<close>

fun truthy :: "json \<Rightarrow> bool" where
  "truthy JUndefined = False"
| "truthy JNull = False"
| "truthy (JBool b) = b"
| "truthy (JNum (Fin q)) = (q \<noteq> 0)"
| "truthy (JNum NaN) = False"
| "truthy (JNum PosInf) = True"
| "truthy (JNum NegInf) = True"
| "truthy (JStr s) = (s \<noteq> [])"
| "truthy (JArr xs) = True"
| "truthy (JObj kvs) = True"

text \<open>
  Property access \<open>obj[key]\<close> and \<open>obj?.[key]\<close> for the keys the program reads: an object
  (the list of its properties, a key being listed once) gives the value stored under the
  key, or \<open>undefined\<close>; \<open>null\<close> and \<open>undefined\<close> give
  \<open>undefined\<close> through the optional chaining (the program reads them in no other way);
  a string, number, boolean or array has none of these keys as a property.
\<close>

definition js_get :: "json \<Rightarrow> string \<Rightarrow> json" where
  "js_get obj key =
     (case obj of
        JObj kvs \<Rightarrow> (case map_of kvs key of Some v \<Rightarrow> v | None \<Rightarrow> JUndefined)
      | _ \<Rightarrow> JUndefined)"

text \<open>\<open>isNaN\<close> on a number.\<close>

definition isNaN :: "number \<Rightarrow> bool" where
  "isNaN n = (n = NaN)"

subsection \<open>\<open>parseInt\<close> and \<open>parseFloat\<close> (ECMAScript 19.2.4 and 19.2.5)\<close>

text \<open>Strings are lists of characters with codes below 256; the white space of
  \<open>TrimString\<close> among them is TAB, LF, VT, FF, CR, SP and NBSP.\<close>

definition isWhiteSpace :: "char \<Rightarrow> bool" where
  "isWhiteSpace c = ((of_char c :: nat) \<in> {9, 10, 11, 12, 13, 32, 160})"

definition isDigit :: "char \<Rightarrow> bool" where
  "isDigit c = (48 \<le> (of_char c :: nat) \<and> (of_char c :: nat) \<le> 57)"

definition isHexDigit :: "char \<Rightarrow> bool" where
  "isHexDigit c =
     (isDigit c \<or> (65 \<le> (of_char c :: nat) \<and> (of_char c :: nat) \<le> 70)
               \<or> (97 \<le> (of_char c :: nat) \<and> (of_char c :: nat) \<le> 102))"

definition digitValue :: "char \<Rightarrow> nat" where
  "digitValue c =
     (if isDigit c then of_char c - 48
      else if (of_char c :: nat) \<le> 70 then of_char c - 55
      else of_char c - 87)"

definition digitsValue :: "nat \<Rightarrow> string \<Rightarrow> nat" where
  "digitsValue R ds = foldl (\<lambda>a c. R * a + digitValue c) 0 ds"

definition splitSign :: "string \<Rightarrow> int \<times> string" where
  "splitSign s =
     (case s of
        [] \<Rightarrow> (1, [])
      | c # cs \<Rightarrow>
          if c = CHR ''-'' then (- 1, cs) else if c = CHR ''+'' then (1, cs) else (1, s))"

text \<open>
  \<open>parseInt(string, radix)\<close> on a string, for the two ways the program calls it: with
  radix 10 (\<open>stripPrefix\<close> is false) and with no radix (radix 10, or 16 after a prefix
  \<open>0x\<close> or \<open>0X\<close>).  The result is \<open>NaN\<close> when no digit follows the sign, and the
  number value of the integer that the digits spell otherwise: the nearest binary64
  value, an infinity from some 309 decimal digits on.
\<close>

definition parseInt_string :: "nat option \<Rightarrow> string \<Rightarrow> number" where
  "parseInt_string radix inputString =
     (let S = dropWhile isWhiteSpace inputString;
          (sign, S1) = splitSign S;
          stripPrefix = (radix = None \<and> (take 2 S1 = ''0x'' \<or> take 2 S1 = ''0X''));
          S2 = (if stripPrefix then drop 2 S1 else S1);
          R = (if stripPrefix then 16 else 10);
          Z = takeWhile (if R = 16 then isHexDigit else isDigit) S2
      in if Z = [] then NaN else binary64 (of_int (sign * int (digitsValue R Z))))"

text \<open>
  \<open>parseFloat(string)\<close> on a string: the longest prefix of the trimmed string that is a
  \<open>StrDecimalLiteral\<close> (a sign, then \<open>Infinity\<close>, or digits with an optional fraction
  and an optional exponent; the exponent counts only when a digit follows it).  The
  result is the number value of the decimal: the nearest binary64 value, which is an
  infinity for a decimal too large and 0 for one too small.
\<close>

definition scale10 :: "int \<Rightarrow> rat" where
  "scale10 k = (if 0 \<le> k then 10 ^ nat k else 1 / 10 ^ nat (- k))"

definition exponentPart :: "string \<Rightarrow> int" where
  "exponentPart r =
     (case r of
        [] \<Rightarrow> 0
      | c # cs \<Rightarrow>
          if c = CHR ''e'' \<or> c = CHR ''E'' then
            (let (sign, ds) = splitSign cs; Z = takeWhile isDigit ds
             in if Z = [] then 0 else sign * int (digitsValue 10 Z))
          else 0)"

definition parseFloat_string :: "string \<Rightarrow> number" where
  "parseFloat_string inputString =
     (let trimmed = dropWhile isWhiteSpace inputString;
          (sign, u) = splitSign trimmed
      in if take 8 u = ''Infinity'' then (if sign = 1 then PosInf else NegInf)
         else
           let ip = takeWhile isDigit u;
               r1 = dropWhile isDigit u;
               hasPoint = (r1 \<noteq> [] \<and> hd r1 = CHR ''.'');
               fp = (if hasPoint then takeWhile isDigit (tl r1) else []);
               r2 = (if hasPoint then dropWhile isDigit (tl r1) else r1)
           in if ip = [] \<and> fp = [] then NaN
              else binary64 (of_int sign
                             * (of_nat (digitsValue 10 ip)
                                + of_nat (digitsValue 10 fp) / 10 ^ length fp)
                             * scale10 (exponentPart r2)))"

text \<open>
  \<open>Number::toString\<close> prints a positive number \<open>x\<close> with the digits of the integer \<open>s\<close>
  and the exponent \<open>n\<close> for which \<open>s \<times> 10\<^sup>n\<^sup>-\<^sup>k\<close> rounds to \<open>x\<close>, where \<open>k\<close>, the number of
  digits of \<open>s\<close>, is as small as possible; of several such \<open>s\<close> it takes the one closest
  to \<open>x\<close>, and the even one of two at the same distance.  \<open>shortestDecimal\<close> looks for
  \<open>s\<close> among the multiples of \<open>10\<^sup>m\<close> next to \<open>x\<close>, from the power of ten above \<open>x\<close>
  downwards, and returns \<open>s\<close> and \<open>m\<close>.  Every binary64 value is found with 17 digits at
  most; on a rational that is no binary64 value the search ends with the first 20 digits
  of the rational.
\<close>

fun decLength :: "nat \<Rightarrow> nat" where
  "decLength n = (if n < 10 then 1 else Suc (decLength (n div 10)))"

definition ilog10 :: "rat \<Rightarrow> int" where
  "ilog10 x =
     (if 1 \<le> x then int (decLength (nat \<lfloor>x\<rfloor>)) - 1
      else - int (decLength (nat (\<lceil>1 / x\<rceil> - 1))))"

fun shortestDecimal :: "nat \<Rightarrow> int \<Rightarrow> rat \<Rightarrow> int \<times> int" where
  "shortestDecimal 0 m x = (\<lfloor>x / scale10 m\<rfloor>, m)"
| "shortestDecimal (Suc fuel) m x =
     (let q = scale10 m;
          lo = \<lfloor>x / q\<rfloor>;
          hi = lo + 1;
          okLo = (0 < lo \<and> binary64 (of_int lo * q) = Fin x);
          okHi = (binary64 (of_int hi * q) = Fin x);
          dLo = x - of_int lo * q;
          dHi = of_int hi * q - x
      in if okLo \<and> (\<not> okHi \<or> dLo < dHi \<or> (dLo = dHi \<and> even lo)) then (lo, m)
         else if okHi then (hi, m)
         else shortestDecimal fuel (m - 1) x)"

definition toStringDigits :: "rat \<Rightarrow> int \<times> int" where
  "toStringDigits x = shortestDecimal 20 (ilog10 x + 1) x"

text \<open>
  On a number, \<open>parseInt\<close> and \<open>parseFloat\<close> first print it and then read the string.
  \<open>parseFloat\<close> reads back the number itself.  \<open>parseInt\<close> reads the digits before the
  decimal point, which are the integer part when the number is printed in decimal
  notation (\<open>10\<^sup>-\<^sup>6 \<le> |x| < 10\<^sup>2\<^sup>1\<close>), and the first digit of \<open>s\<close> when it is printed in
  exponent notation.
\<close>

fun leadingDigit :: "nat \<Rightarrow> nat" where
  "leadingDigit n = (if n < 10 then n else leadingDigit (n div 10))"

definition leadingDigitOf :: "rat \<Rightarrow> int" where
  "leadingDigitOf x = int (leadingDigit (nat (fst (toStringDigits \<bar>x\<bar>))))"

fun parseInt_number :: "number \<Rightarrow> number" where
  "parseInt_number (Fin x) =
     (if x = 0 then Fin 0
      else if 1 / 10 ^ 6 \<le> \<bar>x\<bar> \<and> \<bar>x\<bar> < 10 ^ 21 then Fin (of_int (sgn \<lfloor>x\<rfloor> * \<lfloor>\<bar>x\<bar>\<rfloor>))
      else Fin (of_int ((if x < 0 then - 1 else 1) * leadingDigitOf x)))"
| "parseInt_number n = NaN"

text \<open>
  On the other values the functions read \<open>ToString\<close> of the value: \<open>undefined\<close>,
  \<open>null\<close>, \<open>true\<close>, \<open>false\<close> and \<open>[object Object]\<close>.  An array prints its elements
  separated by commas, \<open>null\<close> and \<open>undefined\<close> as the empty string; a comma ends every
  numeric prefix, so the result is that of the first element.
\<close>

fun js_parse :: "(string \<Rightarrow> number) \<Rightarrow> (number \<Rightarrow> number) \<Rightarrow> json \<Rightarrow> number" where
  "js_parse ps pn JUndefined = ps ''undefined''"
| "js_parse ps pn JNull = ps ''null''"
| "js_parse ps pn (JBool b) = ps (if b then ''true'' else ''false'')"
| "js_parse ps pn (JNum n) = pn n"
| "js_parse ps pn (JStr s) = ps s"
| "js_parse ps pn (JArr []) = ps ''''"
| "js_parse ps pn (JArr (x # xs)) =
     (if x = JUndefined \<or> x = JNull then ps '''' else js_parse ps pn x)"
| "js_parse ps pn (JObj kvs) = ps ''[object Object]''"

definition js_parseInt :: "nat option \<Rightarrow> json \<Rightarrow> number" where
  "js_parseInt radix v = js_parse (parseInt_string radix) parseInt_number v"

definition js_parseFloat :: "json \<Rightarrow> number" where
  "js_parseFloat v = js_parse parseFloat_string (\<lambda>n. n) v"

text \<open>
  \<open>toFixed(0)\<close> on a number with an integer value: below \<open>10\<^sup>2\<^sup>1\<close> it prints the integer
  in decimal digits; from \<open>10\<^sup>2\<^sup>1\<close> on it prints what \<open>Number::toString\<close> prints, which
  is the exponent notation there: the first digit of \<open>s\<close>, the other digits after a
  point when there are any, and the exponent.
\<close>

fun showNat :: "nat \<Rightarrow> string" where
  "showNat n =
     (if n < 10 then [char_of (48 + n)] else showNat (n div 10) @ [char_of (48 + n mod 10)])"

definition showInt :: "int \<Rightarrow> string" where
  "showInt i = (if i < 0 then CHR ''-'' # showNat (nat (- i)) else showNat (nat i))"

definition exponentNotation :: "rat \<Rightarrow> string" where
  "exponentNotation x =
     (let (s, m) = toStringDigits x;
          ds = showNat (nat s);
          n = int (length ds) + m
      in (if length ds = 1 then ds else hd ds # CHR ''.'' # tl ds)
         @ ''e+'' @ showNat (nat (n - 1)))"

definition toFixed0 :: "int \<Rightarrow> string" where
  "toFixed0 b =
     (if \<bar>b\<bar> < 10 ^ 21 then showInt b
      else (if b < 0 then ''-'' else []) @ exponentNotation (of_int \<bar>b\<bar>))"

section \<open>The air purifier accessory (\<open>marvel-air-purifier.ts\<close>)\<close>

subsection \<open>Enumerations and state\<close>

text \<open>
  The module \<open>enumerations\<close> is not among the sources at hand.  Its members are string
  enums; the values of the members the accessory uses are parameters of the model.
  \<open>FanSpeed_values\<close> is \<open>Object.values(FanSpeed)\<close>, the members' values in the order of
  their declaration.
\<close>

record enumerations =
  Field_POWER :: string
  Field_MODE :: string
  Field_FAN_SPEED :: string
  Field_LIGHT :: string
  Field_LIGHT_BRIGHTNESS :: string
  Field_AIR_QUALITY :: string
  Power_ON :: string
  Power_OFF :: string
  Light_ON :: string
  Light_OFF :: string
  Mode_AUTO_DRIVING :: string
  Mode_SILENT :: string
  Mode_TURBO :: string
  Mode_MY_PET :: string
  FanSpeed_SHUTDOWN :: string
  FanSpeed_WEAK :: string
  FanSpeed_MEDIUM :: string
  FanSpeed_STRONG :: string
  FanSpeed_values :: "string list"
  AirQuality_EXCELLENT :: number
  EndpointPath_DEVICES_CONTROL :: string
  EndpointPath_AIR_DEVICES_HOME :: string
  EndpointPath_AIR_DEVICES_FILTER_INFO :: string

text \<open>The constants of HAP-NodeJS the accessory reports.\<close>

definition AirQuality_UNKNOWN :: nat where "AirQuality_UNKNOWN = 0"
definition AirQuality_EXCELLENT_hap :: nat where "AirQuality_EXCELLENT_hap = 1"
definition AirQuality_GOOD :: nat where "AirQuality_GOOD = 2"
definition AirQuality_FAIR :: nat where "AirQuality_FAIR = 3"
definition AirQuality_INFERIOR :: nat where "AirQuality_INFERIOR = 4"
definition AirQuality_POOR :: nat where "AirQuality_POOR = 5"

definition CurrentAirPurifierState_INACTIVE :: nat where "CurrentAirPurifierState_INACTIVE = 0"
definition CurrentAirPurifierState_IDLE :: nat where "CurrentAirPurifierState_IDLE = 1"
definition CurrentAirPurifierState_PURIFYING_AIR :: nat where
  "CurrentAirPurifierState_PURIFYING_AIR = 2"
definition TargetAirPurifierState_MANUAL :: nat where "TargetAirPurifierState_MANUAL = 0"
definition TargetAirPurifierState_AUTO :: nat where "TargetAirPurifierState_AUTO = 1"

text \<open>
  The context of the accessory (\<open>MarvelAirPurifierInterface\<close>).  The densities may be
  \<open>undefined\<close> or \<open>null\<close>, between which the program makes no difference: they are
  options.  The brightness of the light may be \<open>undefined\<close> or \<open>null\<close> as well, and
  the program tells the two apart (it tests \<open>typeof\<close>, compares with \<open>===\<close> and
  multiplies), so the brightness keeps them apart.  \<open>mode\<close> and \<open>fanSpeed\<close> are vendor
  values cast to the enum types without a check, so they are JSON values.
\<close>

datatype nullable_number = Undefined | Null | Num number

record LightbulbInfo =
  lightOn :: bool
  brightness :: nullable_number

record ControlInfo =
  on :: bool
  lightbulbInfo :: LightbulbInfo
  airQuality :: number
  mode :: json
  fanSpeed :: json

record IndoorAirQuality =
  humidity :: "number option"
  pm25Density :: "number option"
  pm10Density :: "number option"
  temperature :: "number option"
  vocDensity :: "number option"

record FilterInfo =
  filterName :: json
  filterCode :: json
  filterPercentage :: number

text \<open>A vendor command, and the values pushed to HomeKit characteristics.\<close>

record PayloadCommand =
  key :: string
  cmdValue :: string

datatype characteristic =
    Active | CurrentAirPurifierState | TargetAirPurifierState | RotationSpeed
  | On | Brightness | AirQuality | PM10Density | PM2_5Density | VOCDensity
  | CurrentRelativeHumidity | CurrentTemperature

datatype hap_value = HBool bool | HNum number

text \<open>
  The accessory: its context, the two flags of the base class the handlers read, and the
  two traces of its effects, oldest first: \<open>sent\<close>, the batches of commands posted to the
  vendor (one batch per call of \<open>executeSetPayloads\<close>), and \<open>pushed\<close>, the values set on
  characteristics.
\<close>

record accessory_state =
  isConnected :: bool
  characteristicRefreshing :: bool
  controlInfo :: ControlInfo
  indoorAirQuality :: IndoorAirQuality
  filterInfos :: "FilterInfo list"
  sent :: "PayloadCommand list list"
  pushed :: "(characteristic \<times> hap_value) list"

datatype js_error = TypeError | Error string

subsection \<open>Constants\<close>

definition LIGHTBULB_BRIGHTNESS_UNIT :: rat where
  "LIGHTBULB_BRIGHTNESS_UNIT = double (100 / 3)"

definition ROTATION_SPEED_UNIT :: rat where
  "ROTATION_SPEED_UNIT = double (100 / 6)"

subsection \<open>Helpers for parsing\<close>

definition parseNullableInt :: "json \<Rightarrow> number" where
  "parseNullableInt str =
     (if \<not> truthy str \<and> str \<noteq> JStr ''0'' then Fin 0
      else let v = js_parseInt (Some 10) str in if isNaN v then Fin 0 else v)"

definition parseNullableFloat :: "json \<Rightarrow> number" where
  "parseNullableFloat str =
     (if \<not> truthy str \<and> str \<noteq> JStr ''0'' then Fin 0
      else let v = js_parseFloat str in if isNaN v then Fin 0 else v)"

text \<open>\<open>isNotNull(value)\<close> is false on \<open>null\<close>, on \<open>undefined\<close> and on \<open>NaN\<close>.  It does not
  tell \<open>null\<close> from \<open>undefined\<close>: on the brightness it is applied through \<open>nullish\<close>,
  which forgets the difference.\<close>

definition isNotNull :: "number option \<Rightarrow> bool" where
  "isNotNull v = (case v of None \<Rightarrow> False | Some n \<Rightarrow> \<not> isNaN n)"

fun nullish :: "nullable_number \<Rightarrow> number option" where
  "nullish Undefined = None"
| "nullish Null = None"
| "nullish (Num n) = Some n"

subsection \<open>\<open>getControlInfo\<close>, \<open>getIndoorAirQuality\<close>, \<open>getFilterInfos\<close>\<close>

definition getControlInfo :: "enumerations \<Rightarrow> json \<Rightarrow> ControlInfo" where
  "getControlInfo E response =
     (let status = js_get response ''controlStatus''
      in if \<not> truthy status then
           \<lparr>on = False,
            lightbulbInfo = \<lparr>lightOn = False, brightness = Num (Fin 0)\<rparr>,
            airQuality = AirQuality_EXCELLENT E,
            mode = JStr (Mode_AUTO_DRIVING E),
            fanSpeed = JStr (FanSpeed_SHUTDOWN E)\<rparr>
         else
           \<lparr>on = (js_get status (Field_POWER E) = JStr ''1''),
            lightbulbInfo =
              \<lparr>lightOn = (js_get status (Field_LIGHT E) = JStr ''0''),
               brightness = Num (parseNullableInt (js_get status (Field_LIGHT_BRIGHTNESS E)))\<rparr>,
            airQuality = js_parseInt None (js_get status (Field_AIR_QUALITY E)),
            mode = js_get status (Field_MODE E),
            fanSpeed = js_get status (Field_FAN_SPEED E)\<rparr>)"

definition getIndoorAirQuality :: "json \<Rightarrow> IndoorAirQuality" where
  "getIndoorAirQuality statusInfo =
     (let response = js_get statusInfo ''IAQ''
      in if \<not> truthy response then
           \<lparr>humidity = Some (Fin 0), pm25Density = Some (Fin 0), pm10Density = Some (Fin 0),
            temperature = Some (Fin 0), vocDensity = Some (Fin 0)\<rparr>
         else
           \<lparr>humidity = Some (parseNullableFloat (js_get response ''humidity'')),
            pm25Density = Some (parseNullableFloat (js_get response ''dustpm25'')),
            pm10Density = Some (parseNullableFloat (js_get response ''dustpm10'')),
            temperature = Some (parseNullableFloat (js_get response ''temperature'')),
            vocDensity = Some (parseNullableFloat (js_get response ''vocs''))\<rparr>)"

text \<open>\<open>filters.map(f => ...)\<close> reads properties of every element; on an element \<open>null\<close> or
  \<open>undefined\<close> that read throws a \<open>TypeError\<close>.\<close>

definition filterInfoOf :: "json \<Rightarrow> js_error + FilterInfo" where
  "filterInfoOf f =
     (if f = JUndefined \<or> f = JNull then Inl TypeError
      else Inr \<lparr>filterName = js_get f ''filterName'',
                filterCode = js_get f ''filterCode'',
                filterPercentage = parseNullableInt (js_get f ''filterPer'')\<rparr>)"

fun mapE :: "('a \<Rightarrow> 'e + 'b) \<Rightarrow> 'a list \<Rightarrow> 'e + 'b list" where
  "mapE f [] = Inr []"
| "mapE f (x # xs) =
     (case f x of
        Inl e \<Rightarrow> Inl e
      | Inr y \<Rightarrow> (case mapE f xs of Inl e \<Rightarrow> Inl e | Inr ys \<Rightarrow> Inr (y # ys)))"

definition getFilterInfos :: "json \<Rightarrow> js_error + FilterInfo list" where
  "getFilterInfos filterInfo =
     (case js_get filterInfo ''filterList'' of
        JArr filters \<Rightarrow> mapE filterInfoOf filters
      | _ \<Rightarrow> Inr [])"

subsection \<open>Helpers on the context\<close>

definition getPurifierDrivingStrategy :: "enumerations \<Rightarrow> accessory_state \<Rightarrow> nat" where
  "getPurifierDrivingStrategy E ctx =
     (if mode (controlInfo ctx) = JStr (Mode_AUTO_DRIVING E) then TargetAirPurifierState_AUTO
      else TargetAirPurifierState_MANUAL)"

definition getCurrentAirPurifierState :: "enumerations \<Rightarrow> accessory_state \<Rightarrow> nat" where
  "getCurrentAirPurifierState E ctx =
     (if \<not> on (controlInfo ctx) then CurrentAirPurifierState_INACTIVE
      else if mode (controlInfo ctx) = JStr (Mode_SILENT E) then CurrentAirPurifierState_IDLE
      else CurrentAirPurifierState_PURIFYING_AIR)"

text \<open>The comparisons \<open>x < r\<close> and \<open>x <= r\<close> of a number with a finite constant.\<close>

fun num_less :: "number \<Rightarrow> rat \<Rightarrow> bool" where
  "num_less (Fin q) r = (q < r)"
| "num_less NaN r = False"
| "num_less PosInf r = False"
| "num_less NegInf r = True"

fun num_le :: "number \<Rightarrow> rat \<Rightarrow> bool" where
  "num_le (Fin q) r = (q \<le> r)"
| "num_le NaN r = False"
| "num_le PosInf r = False"
| "num_le NegInf r = True"

definition pm10Level :: "number \<Rightarrow> nat" where
  "pm10Level pm10 =
     (if num_less pm10 0 then AirQuality_UNKNOWN
      else if num_le pm10 10 then AirQuality_EXCELLENT_hap
      else if num_le pm10 30 then AirQuality_GOOD
      else if num_le pm10 80 then AirQuality_FAIR
      else if num_le pm10 150 then AirQuality_INFERIOR
      else AirQuality_POOR)"

definition pm25Level :: "number \<Rightarrow> nat" where
  "pm25Level pm25 =
     (if num_less pm25 0 then AirQuality_UNKNOWN
      else if num_le pm25 5 then AirQuality_EXCELLENT_hap
      else if num_le pm25 15 then AirQuality_GOOD
      else if num_le pm25 35 then AirQuality_FAIR
      else if num_le pm25 75 then AirQuality_INFERIOR
      else AirQuality_POOR)"

definition getCurrentAirQuality :: "accessory_state \<Rightarrow> nat" where
  "getCurrentAirQuality ctx =
     (if \<not> on (controlInfo ctx) then AirQuality_UNKNOWN
      else
        let pm25 = pm25Density (indoorAirQuality ctx);
            pm10 = pm10Density (indoorAirQuality ctx);
            levels =
              (case pm10 of
                 Some n \<Rightarrow> if isNotNull pm10 then [pm10Level n] else []
               | None \<Rightarrow> [])
              @ (case pm25 of
                   Some n \<Rightarrow> if isNotNull pm25 then [pm25Level n] else []
                 | None \<Rightarrow> [])
        in if levels = [] then AirQuality_UNKNOWN else Max (set levels))"

text \<open>\<open>Array.prototype.indexOf\<close>: the first index of an element strictly equal to the
  value, or \<open>-1\<close>.\<close>

fun indexOf :: "'a list \<Rightarrow> 'a \<Rightarrow> int" where
  "indexOf [] v = - 1"
| "indexOf (x # xs) v =
     (if x = v then 0 else (let i = indexOf xs v in if i = - 1 then - 1 else i + 1))"

definition getRotationSpeed :: "enumerations \<Rightarrow> accessory_state \<Rightarrow> int" where
  "getRotationSpeed E ctx =
     (let fs = fanSpeed (controlInfo ctx)
      in if fs = JStr (FanSpeed_SHUTDOWN E) then 0
         else indexOf (map JStr (FanSpeed_values E)) fs + 1)"

definition createCommandFromRotationSpeed ::
  "enumerations \<Rightarrow> int \<Rightarrow> PayloadCommand option" where
  "createCommandFromRotationSpeed E rotationSpeed =
     (if rotationSpeed = 1 then Some \<lparr>key = Field_MODE E, cmdValue = Mode_SILENT E\<rparr>
      else if rotationSpeed = 2 then Some \<lparr>key = Field_FAN_SPEED E, cmdValue = FanSpeed_WEAK E\<rparr>
      else if rotationSpeed = 3 then Some \<lparr>key = Field_FAN_SPEED E, cmdValue = FanSpeed_MEDIUM E\<rparr>
      else if rotationSpeed = 4 then Some \<lparr>key = Field_FAN_SPEED E, cmdValue = FanSpeed_STRONG E\<rparr>
      else if rotationSpeed = 5 then Some \<lparr>key = Field_MODE E, cmdValue = Mode_TURBO E\<rparr>
      else if rotationSpeed = 6 then Some \<lparr>key = Field_MODE E, cmdValue = Mode_MY_PET E\<rparr>
      else None)"

text \<open>The product of a number with a finite constant.\<close>

fun num_times :: "number \<Rightarrow> rat \<Rightarrow> number" where
  "num_times (Fin q) u = binary64 (q * u)"
| "num_times NaN u = NaN"
| "num_times PosInf u = (if 0 < u then PosInf else if u < 0 then NegInf else NaN)"
| "num_times NegInf u = (if 0 < u then NegInf else if u < 0 then PosInf else NaN)"

text \<open>
  \<open>getLightbulbBrightnessPercentage\<close> returns \<open>undefined\<close> (\<open>None\<close>) when \<open>typeof\<close> the
  brightness is \<open>undefined\<close>, and the product with the unit otherwise.  \<open>typeof null\<close> is
  \<open>object\<close>, and in the product \<open>null\<close> is the number 0.
\<close>

definition getLightbulbBrightnessPercentage :: "accessory_state \<Rightarrow> number option" where
  "getLightbulbBrightnessPercentage ctx =
     (case brightness (lightbulbInfo (controlInfo ctx)) of
        Undefined \<Rightarrow> None
      | Null \<Rightarrow> Some (num_times (Fin 0) LIGHTBULB_BRIGHTNESS_UNIT)
      | Num b \<Rightarrow> Some (num_times b LIGHTBULB_BRIGHTNESS_UNIT))"

text \<open>The fan level shown as a percentage, and the percentage of a level as such.\<close>

definition percentageOfLevel :: "int \<Rightarrow> rat" where
  "percentageOfLevel level = double (of_int level * ROTATION_SPEED_UNIT)"

definition getRotationSpeedPercentage :: "enumerations \<Rightarrow> accessory_state \<Rightarrow> rat" where
  "getRotationSpeedPercentage E ctx = percentageOfLevel (getRotationSpeed E ctx)"

subsection \<open>Sending commands\<close>

text \<open>
  \<open>executeSetPayload\<close> and \<open>executeSetPayloads\<close> of the base class \<open>Accessory\<close> are not
  among the sources.  They are taken to hand their commands to
  \<open>CowayService.executeSetPayloads\<close>, which posts them to the vendor as one \<open>funcList\<close>:
  one call is one batch in the trace \<open>sent\<close>.
\<close>

definition executeSetPayloads :: "PayloadCommand list \<Rightarrow> accessory_state \<Rightarrow> accessory_state" where
  "executeSetPayloads commands s = s\<lparr>sent := sent s @ [commands]\<rparr>"

definition executeSetPayload :: "string \<Rightarrow> string \<Rightarrow> accessory_state \<Rightarrow> accessory_state" where
  "executeSetPayload field v s = executeSetPayloads [\<lparr>key = field, cmdValue = v\<rparr>] s"

subsection \<open>Rounding a percentage to a level\<close>

text \<open>
  The quotient of a percentage by the unit is a double.  \<open>Math.round(x)\<close> is
  \<open>\<lfloor>x + 1/2\<rfloor>\<close>, which is \<open>round x\<close>.
  \<open>parseInt(x.toFixed(0))\<close>: below \<open>10\<^sup>2\<^sup>1\<close>, \<open>toFixed(0)\<close> prints in decimal digits the
  integer nearest to \<open>x\<close>, the one of larger magnitude on a tie, and \<open>parseInt\<close> reads it
  back; from \<open>10\<^sup>2\<^sup>1\<close> on it prints the exponent notation of \<open>Number::toString\<close>, of which
  \<open>parseInt\<close> reads the leading digit.
\<close>

definition toFixed0_parseInt :: "rat \<Rightarrow> int" where
  "toFixed0_parseInt x =
     (if \<bar>x\<bar> < 10 ^ 21 then (if x < 0 then - 1 else 1) * \<lfloor>\<bar>x\<bar> + 1 / 2\<rfloor>
      else (if x < 0 then - 1 else 1) * leadingDigitOf x)"

definition newRotationSpeed :: "rat \<Rightarrow> int" where
  "newRotationSpeed value = toFixed0_parseInt (double (value / ROTATION_SPEED_UNIT))"

subsection \<open>The SET handlers\<close>

text \<open>
  A handler takes the value HomeKit sets (a boolean, a number, or a finite number for
  the two percentages) and the accessory; it returns the accessory and the argument of
  the callback (\<open>None\<close> for \<open>callback(undefined)\<close>).  The handlers are modelled as the
  functions passed to \<open>wrapSet\<close>, which belongs to the base class.
\<close>

definition lightbulb_on_set ::
  "enumerations \<Rightarrow> bool \<Rightarrow> accessory_state \<Rightarrow> accessory_state \<times> js_error option" where
  "lightbulb_on_set E enabled s =
     (let ci = controlInfo s
      in if lightOn (lightbulbInfo ci) = enabled then (s, None)
         else if \<not> on ci \<and> enabled then
           (executeSetPayload (Field_POWER E) (Power_ON E) s, None)
         else
           (executeSetPayload (Field_LIGHT E) (if enabled then Light_ON E else Light_OFF E)
              (s\<lparr>controlInfo := ci\<lparr>lightbulbInfo := (lightbulbInfo ci)\<lparr>lightOn := enabled\<rparr>\<rparr>\<rparr>),
            None))"

definition lightbulb_brightness_set ::
  "enumerations \<Rightarrow> rat \<Rightarrow> accessory_state \<Rightarrow> accessory_state \<times> js_error option" where
  "lightbulb_brightness_set E value s =
     (let ci = controlInfo s;
          b = round (double (value / LIGHTBULB_BRIGHTNESS_UNIT))
      in if brightness (lightbulbInfo ci) = Num (Fin (of_int b)) then (s, None)
         else
           let li = (lightbulbInfo ci)\<lparr>brightness := Num (Fin (of_int b))\<rparr>
           in if b = 0 then
                (executeSetPayload (Field_LIGHT E) (Light_OFF E)
                   (s\<lparr>controlInfo := ci\<lparr>lightbulbInfo := li\<lparr>lightOn := False\<rparr>\<rparr>\<rparr>),
                 None)
              else
                (executeSetPayloads
                   ((if \<not> on ci then [\<lparr>key = Field_POWER E, cmdValue = Power_ON E\<rparr>] else [])
                    @ [\<lparr>key = Field_LIGHT_BRIGHTNESS E, cmdValue = toFixed0 b\<rparr>])
                   (s\<lparr>controlInfo := ci\<lparr>lightbulbInfo := li\<rparr>\<rparr>),
                 None))"

definition active_set ::
  "enumerations \<Rightarrow> bool \<Rightarrow> accessory_state \<Rightarrow> accessory_state \<times> js_error option" where
  "active_set E enabled s =
     (let ci = controlInfo s
      in if enabled = on ci then (s, None)
         else
           let ci1 = ci\<lparr>on := enabled\<rparr>;
               ci2 =
                 (if \<not> enabled then
                    ci1\<lparr>lightbulbInfo :=
                          \<lparr>lightOn = False,
                           brightness =
                             (if isNotNull (nullish (brightness (lightbulbInfo ci1)))
                              then Num (Fin 0)
                              else brightness (lightbulbInfo ci1))\<rparr>\<rparr>
                  else ci1)
           in (executeSetPayload (Field_POWER E) (if enabled then Power_ON E else Power_OFF E)
                 (s\<lparr>controlInfo := ci2\<rparr>),
               None))"

definition rotationSpeed_set ::
  "enumerations \<Rightarrow> rat \<Rightarrow> accessory_state \<Rightarrow> accessory_state \<times> js_error option" where
  "rotationSpeed_set E value s =
     (let ci = controlInfo s;
          oldRotationSpeed = getRotationSpeed E s;
          newSpeed = newRotationSpeed value
      in if mode ci = JStr (Mode_AUTO_DRIVING E) \<and> characteristicRefreshing s then (s, None)
         else if oldRotationSpeed = newSpeed then (s, None)
         else if on ci \<and> newSpeed = 0 then (s, None)
         else
           let commands =
                 (if \<not> on ci then [\<lparr>key = Field_POWER E, cmdValue = Power_ON E\<rparr>] else [])
           in case createCommandFromRotationSpeed E newSpeed of
                Some command \<Rightarrow> (executeSetPayloads (commands @ [command]) s, None)
              | None \<Rightarrow> (s, Some (Error ''INVALID ROTATION SPEED'')))"

text \<open>
  The handler of \<open>Brightness\<close> on a value that is no finite number: \<open>Math.round\<close>
  leaves it as it is, it is equal to the stored brightness when that is the same
  infinity, it is not 0, and \<open>toFixed(0)\<close> prints its name.
\<close>

definition lightbulb_brightness_set_number ::
  "enumerations \<Rightarrow> number \<Rightarrow> accessory_state \<Rightarrow> accessory_state \<times> js_error option" where
  "lightbulb_brightness_set_number E value s =
     (case value of
        Fin p \<Rightarrow> lightbulb_brightness_set E p s
      | _ \<Rightarrow>
          let ci = controlInfo s
          in if value \<noteq> NaN \<and> brightness (lightbulbInfo ci) = Num value then (s, None)
             else
               (executeSetPayloads
                  ((if \<not> on ci then [\<lparr>key = Field_POWER E, cmdValue = Power_ON E\<rparr>] else [])
                   @ [\<lparr>key = Field_LIGHT_BRIGHTNESS E,
                       cmdValue = (case value of PosInf \<Rightarrow> ''Infinity''
                                   | NegInf \<Rightarrow> ''-Infinity'' | _ \<Rightarrow> ''NaN'')\<rparr>])
                  (s\<lparr>controlInfo := ci\<lparr>lightbulbInfo :=
                                          (lightbulbInfo ci)\<lparr>brightness := Num value\<rparr>\<rparr>\<rparr>),
                None))"

text \<open>The handler of \<open>TargetAirPurifierState\<close>, with \<open>driveAutomatically\<close>,
  \<open>driveManually\<close> and \<open>executeRotationCommand\<close>.\<close>

definition driveAutomatically :: "enumerations \<Rightarrow> accessory_state \<Rightarrow> accessory_state" where
  "driveAutomatically E s =
     executeSetPayload (Field_MODE E) (Mode_AUTO_DRIVING E)
       (s\<lparr>controlInfo := (controlInfo s)\<lparr>mode := JStr (Mode_AUTO_DRIVING E)\<rparr>\<rparr>)"

definition executeRotationCommand ::
  "enumerations \<Rightarrow> PayloadCommand \<Rightarrow> accessory_state \<Rightarrow> accessory_state" where
  "executeRotationCommand E command s =
     (let ci = controlInfo s;
          ci1 = (if key command = Field_MODE E then ci\<lparr>mode := JStr (cmdValue command)\<rparr>
                 else if key command = Field_FAN_SPEED E
                   then ci\<lparr>fanSpeed := JStr (cmdValue command)\<rparr>
                 else ci)
      in executeSetPayloads [command] (s\<lparr>controlInfo := ci1\<rparr>))"

definition driveManually :: "enumerations \<Rightarrow> accessory_state \<Rightarrow> accessory_state \<times> bool" where
  "driveManually E s =
     (case createCommandFromRotationSpeed E (getRotationSpeed E s) of
        Some command \<Rightarrow> (executeRotationCommand E command s, True)
      | None \<Rightarrow> (s, False))"

definition targetAirPurifierState_set ::
  "enumerations \<Rightarrow> number \<Rightarrow> accessory_state \<Rightarrow> accessory_state \<times> js_error option" where
  "targetAirPurifierState_set E value s =
     (let ci = controlInfo s
      in if \<not> on ci \<or> fanSpeed ci = JStr (FanSpeed_SHUTDOWN E) then (s, None)
         else
           let wasAuto = (mode ci = JStr (Mode_AUTO_DRIVING E));
               isAuto = (value = Fin (of_nat TargetAirPurifierState_AUTO))
           in if wasAuto = isAuto then (s, None)
              else if isAuto then (driveAutomatically E s, None)
              else case driveManually E s of
                     (s1, True) \<Rightarrow> (s1, None)
                   | (s1, False) \<Rightarrow> (s1, Some (Error ''INVALID ROTATION SPEED'')))"

subsection \<open>Setting characteristics\<close>

text \<open>
  \<open>setCharacteristic\<close> of HAP-NodeJS stores the value, which the trace \<open>pushed\<close> records,
  and runs the SET handler registered for the characteristic, up to the point where the
  handler waits for the vendor: all that a handler does to the context and the request
  it posts come before that.  The five characteristics with a SET handler are \<open>Active\<close>
  and \<open>On\<close>, which the program sets to booleans, and \<open>TargetAirPurifierState\<close>,
  \<open>RotationSpeed\<close> and \<open>Brightness\<close>, which it sets to numbers (\<open>RotationSpeed\<close> to a
  finite one).  The services are taken as registered, and so is the handler of
  \<open>Brightness\<close>, which is there when the brightness was not \<open>undefined\<close> at
  registration.  The callback that the handler of \<open>Active\<close> leaves with \<open>setTimeout\<close>
  runs after the caller of \<open>setCharacteristic\<close> is done; it is \<open>active_set_timeout\<close>
  below.
\<close>

fun setCharacteristic ::
  "enumerations \<Rightarrow> characteristic \<Rightarrow> hap_value \<Rightarrow> accessory_state \<Rightarrow> accessory_state" where
  "setCharacteristic E Active (HBool b) s =
     fst (active_set E b (s\<lparr>pushed := pushed s @ [(Active, HBool b)]\<rparr>))"
| "setCharacteristic E TargetAirPurifierState (HNum n) s =
     fst (targetAirPurifierState_set E n
            (s\<lparr>pushed := pushed s @ [(TargetAirPurifierState, HNum n)]\<rparr>))"
| "setCharacteristic E RotationSpeed (HNum (Fin p)) s =
     fst (rotationSpeed_set E p (s\<lparr>pushed := pushed s @ [(RotationSpeed, HNum (Fin p))]\<rparr>))"
| "setCharacteristic E On (HBool b) s =
     fst (lightbulb_on_set E b (s\<lparr>pushed := pushed s @ [(On, HBool b)]\<rparr>))"
| "setCharacteristic E Brightness (HNum n) s =
     fst (lightbulb_brightness_set_number E n
            (s\<lparr>pushed := pushed s @ [(Brightness, HNum n)]\<rparr>))"
| "setCharacteristic E c v s = s\<lparr>pushed := pushed s @ [(c, v)]\<rparr>"

text \<open>\<open>setOptionalCharacteristic\<close> on a registered service: the value is set unless it is
  \<open>null\<close>, \<open>undefined\<close> or \<open>NaN\<close>.\<close>

definition setOptionalCharacteristic ::
  "enumerations \<Rightarrow> characteristic \<Rightarrow> number option \<Rightarrow> accessory_state \<Rightarrow> accessory_state" where
  "setOptionalCharacteristic E c v s =
     (case v of
        Some n \<Rightarrow> if isNotNull v then setCharacteristic E c (HNum n) s else s
      | None \<Rightarrow> s)"

text \<open>
  The callback that the handler of \<open>Active\<close> leaves with \<open>setTimeout(..., 0)\<close> when it
  switches the purifier off: it sets \<open>On\<close> to \<open>false\<close> and \<open>Brightness\<close> to the brightness
  percentage, which is \<open>undefined\<close> for a brightness \<open>undefined\<close> and 0 for a brightness
  \<open>null\<close>.
\<close>

definition active_set_timeout :: "enumerations \<Rightarrow> accessory_state \<Rightarrow> accessory_state" where
  "active_set_timeout E s =
     (let s1 = setCharacteristic E On (HBool False) s
      in setOptionalCharacteristic E Brightness (getLightbulbBrightnessPercentage s1) s1)"

subsection \<open>\<open>refresh\<close>\<close>

text \<open>
  The callback that \<open>refresh\<close> passes to \<open>refreshCharacteristics\<close>: its calls in order,
  each on the accessory as the calls before it have left it, and with a value read from
  the context at that point.
\<close>

definition refreshCallback :: "enumerations \<Rightarrow> accessory_state \<Rightarrow> accessory_state" where
  "refreshCallback E s0 =
     fold (\<lambda>call s. call s)
       [\<lambda>s. setCharacteristic E Active (HBool (on (controlInfo s))) s,
        \<lambda>s. setCharacteristic E CurrentAirPurifierState
               (HNum (Fin (of_nat (getCurrentAirPurifierState E s)))) s,
        \<lambda>s. setCharacteristic E TargetAirPurifierState
               (HNum (Fin (of_nat (getPurifierDrivingStrategy E s)))) s,
        \<lambda>s. setCharacteristic E RotationSpeed
               (HNum (Fin (getRotationSpeedPercentage E s))) s,
        \<lambda>s. setCharacteristic E On
               (HBool (on (controlInfo s) \<and> lightOn (lightbulbInfo (controlInfo s)))) s,
        \<lambda>s. setOptionalCharacteristic E Brightness (getLightbulbBrightnessPercentage s) s,
        \<lambda>s. setCharacteristic E AirQuality (HNum (Fin (of_nat (getCurrentAirQuality s)))) s,
        \<lambda>s. setOptionalCharacteristic E PM10Density (pm10Density (indoorAirQuality s)) s,
        \<lambda>s. setOptionalCharacteristic E PM2_5Density (pm25Density (indoorAirQuality s)) s,
        \<lambda>s. setOptionalCharacteristic E VOCDensity (vocDensity (indoorAirQuality s)) s,
        \<lambda>s. setOptionalCharacteristic E CurrentRelativeHumidity
               (humidity (indoorAirQuality s)) s,
        \<lambda>s. setOptionalCharacteristic E CurrentTemperature
               (temperature (indoorAirQuality s)) s]
       s0"

text \<open>
  \<open>refresh(responses)\<close>.  \<open>super.refresh\<close> and \<open>refreshCharacteristics\<close> belong to the
  base class and are parameters: the first may change the accessory (it is where
  \<open>isConnected\<close> comes from) or throw, the second is given the callback.
  \<open>responses\<close> maps an endpoint to the vendor's response; a missing endpoint reads as
  \<open>undefined\<close>.  The result is the accessory after the call, or the error thrown.
\<close>

definition response_of :: "(string \<rightharpoonup> json) \<Rightarrow> string \<Rightarrow> json" where
  "response_of responses endpoint =
     (case responses endpoint of None \<Rightarrow> JUndefined | Some r \<Rightarrow> r)"

definition refresh ::
  "enumerations \<Rightarrow> ((string \<rightharpoonup> json) \<Rightarrow> accessory_state \<Rightarrow> js_error + accessory_state)
   \<Rightarrow> ((accessory_state \<Rightarrow> accessory_state) \<Rightarrow> accessory_state \<Rightarrow> js_error + accessory_state)
   \<Rightarrow> (string \<rightharpoonup> json) \<Rightarrow> accessory_state \<Rightarrow> js_error + accessory_state" where
  "refresh E super_refresh refreshCharacteristics responses s =
     (case super_refresh responses s of
        Inl e \<Rightarrow> Inl e
      | Inr s1 \<Rightarrow>
          if \<not> isConnected s1 then Inr s1
          else
            let filterInfo = response_of responses (EndpointPath_AIR_DEVICES_FILTER_INFO E);
                statusInfo = response_of responses (EndpointPath_AIR_DEVICES_HOME E);
                controlResponse = response_of responses (EndpointPath_DEVICES_CONTROL E)
            in case getFilterInfos filterInfo of
                 Inl e \<Rightarrow> Inl e
               | Inr fi \<Rightarrow>
                   refreshCharacteristics (refreshCallback E)
                     (s1\<lparr>filterInfos := fi,
                         indoorAirQuality := getIndoorAirQuality statusInfo,
                         controlInfo := getControlInfo E controlResponse\<rparr>))"

subsection \<open>The air-quality classifier as the specification words it\<close>

text \<open>
  The five-level ordinal with \<open>unknown\<close> below it.  A reading is a density, or \<open>None\<close>
  when none is available (\<open>null\<close>, \<open>undefined\<close> or \<open>NaN\<close> in the context).
\<close>

datatype air_quality = Unknown | Excellent | Good | Fair | Inferior | Poor

fun ordinal :: "air_quality \<Rightarrow> nat" where
  "ordinal Unknown = 0"
| "ordinal Excellent = 1"
| "ordinal Good = 2"
| "ordinal Fair = 3"
| "ordinal Inferior = 4"
| "ordinal Poor = 5"

definition classify :: "rat \<Rightarrow> rat \<Rightarrow> rat \<Rightarrow> rat \<Rightarrow> number \<Rightarrow> air_quality" where
  "classify b1 b2 b3 b4 reading =
     (if num_less reading 0 then Unknown
      else if num_le reading b1 then Excellent
      else if num_le reading b2 then Good
      else if num_le reading b3 then Fair
      else if num_le reading b4 then Inferior
      else Poor)"

definition worse :: "air_quality \<Rightarrow> air_quality \<Rightarrow> air_quality" where
  "worse a b = (if ordinal a \<le> ordinal b then b else a)"

definition reading_of :: "number option \<Rightarrow> number option" where
  "reading_of v = (if isNotNull v then v else None)"

definition reference_air_quality ::
  "bool \<Rightarrow> number option \<Rightarrow> number option \<Rightarrow> air_quality" where
  "reference_air_quality deviceOn pm10 pm25 =
     (if \<not> deviceOn then Unknown
      else case (pm10, pm25) of
             (None, None) \<Rightarrow> Unknown
           | (Some x, None) \<Rightarrow> classify 10 30 80 150 x
           | (None, Some y) \<Rightarrow> classify 5 15 35 75 y
           | (Some x, Some y) \<Rightarrow> worse (classify 10 30 80 150 x) (classify 5 15 35 75 y))"

subsection \<open>A sample accessory\<close>

text \<open>
  Sample values for the members of the enumerations, and an accessory as it is after a
  poll of a device that is switched off.  The properties below hold for all
  enumerations and accessories; the samples are the concrete inputs of the examples.
\<close>

definition sampleEnumerations :: enumerations where
  "sampleEnumerations =
     \<lparr>Field_POWER = ''0001'', Field_MODE = ''0002'', Field_FAN_SPEED = ''0003'',
      Field_LIGHT = ''0007'', Field_LIGHT_BRIGHTNESS = ''0031'', Field_AIR_QUALITY = ''0005'',
      Power_ON = ''1'', Power_OFF = ''0'',
      Light_ON = ''0'', Light_OFF = ''3'',
      Mode_AUTO_DRIVING = ''1'', Mode_SILENT = ''2'', Mode_TURBO = ''5'', Mode_MY_PET = ''6'',
      FanSpeed_SHUTDOWN = ''0'', FanSpeed_WEAK = ''1'', FanSpeed_MEDIUM = ''2'',
      FanSpeed_STRONG = ''3'',
      FanSpeed_values = [''0'', ''1'', ''2'', ''3''],
      AirQuality_EXCELLENT = Fin 1,
      EndpointPath_DEVICES_CONTROL = ''control'',
      EndpointPath_AIR_DEVICES_HOME = ''home'',
      EndpointPath_AIR_DEVICES_FILTER_INFO = ''filter''\<rparr>"

definition sampleAccessory :: accessory_state where
  "sampleAccessory =
     \<lparr>isConnected = True,
      characteristicRefreshing = False,
      controlInfo =
        \<lparr>on = False,
         lightbulbInfo = \<lparr>lightOn = False, brightness = Num (Fin 0)\<rparr>,
         airQuality = Fin 1,
         mode = JStr ''1'',
         fanSpeed = JStr ''0''\<rparr>,
      indoorAirQuality =
        \<lparr>humidity = Some (Fin 40), pm25Density = Some (Fin 40), pm10Density = Some (Fin 5),
         temperature = Some (Fin 21), vocDensity = Some (Fin 0)\<rparr>,
      filterInfos = [],
      sent = [],
      pushed = []\<rparr>"

definition setOn :: "bool \<Rightarrow> accessory_state \<Rightarrow> accessory_state" where
  "setOn b s = s\<lparr>controlInfo := (controlInfo s)\<lparr>on := b\<rparr>\<rparr>"


definition setDensities ::
  "number option \<Rightarrow> number option \<Rightarrow> accessory_state \<Rightarrow> accessory_state" where
  "setDensities pm10 pm25 s =
     s\<lparr>indoorAirQuality := (indoorAirQuality s)\<lparr>pm10Density := pm10, pm25Density := pm25\<rparr>\<rparr>"

text \<open>A base class whose \<open>refreshCharacteristics\<close> raises the flag
  \<open>characteristicRefreshing\<close>, runs the callback and lowers the flag.\<close>

definition sampleRefreshCharacteristics ::
  "(accessory_state \<Rightarrow> accessory_state) \<Rightarrow> accessory_state \<Rightarrow> js_error + accessory_state" where
  "sampleRefreshCharacteristics callback s =
     Inr ((callback (s\<lparr>characteristicRefreshing := True\<rparr>))\<lparr>characteristicRefreshing := False\<rparr>)"

section \<open>The vendor service (\<open>coway.ts\<close>)\<close>

subsection \<open>String helpers\<close>

text \<open>\<open>String.prototype.split\<close> with a one-character separator: the pieces between the
  separators, of which there is always one at least.\<close>

fun splitOn :: "char \<Rightarrow> string \<Rightarrow> string list" where
  "splitOn sep [] = [[]]"
| "splitOn sep (c # cs) =
     (if c = sep then [] # splitOn sep cs
      else (case splitOn sep cs of piece # pieces \<Rightarrow> (c # piece) # pieces | [] \<Rightarrow> [[c]]))"

text \<open>Splitting a string at the first and at the last occurrence of a pattern.\<close>

fun splitFirst :: "string \<Rightarrow> string \<Rightarrow> (string \<times> string) option" where
  "splitFirst pat [] = (if pat = [] then Some ([], []) else None)"
| "splitFirst pat (c # cs) =
     (if take (length pat) (c # cs) = pat then Some ([], drop (length pat) (c # cs))
      else (case splitFirst pat cs of None \<Rightarrow> None | Some (a, b) \<Rightarrow> Some (c # a, b)))"

definition splitLast :: "string \<Rightarrow> string \<Rightarrow> (string \<times> string) option" where
  "splitLast pat s =
     (case splitFirst (rev pat) (rev s) of None \<Rightarrow> None | Some (a, b) \<Rightarrow> Some (rev b, rev a))"

text \<open>\<open>s.indexOf(pat) === -1\<close> is \<open>\<not> js_includes pat s\<close>.\<close>

definition js_includes :: "string \<Rightarrow> string \<Rightarrow> bool" where
  "js_includes pat s = (splitFirst pat s \<noteq> None)"

text \<open>\<open>replaceAll("&amp;", "&")\<close>.\<close>

function replaceAmp :: "string \<Rightarrow> string" where
  "replaceAmp [] = []"
| "replaceAmp (c # cs) =
     (if take 5 (c # cs) = ''&amp;'' then CHR ''&'' # replaceAmp (drop 5 (c # cs))
      else c # replaceAmp cs)"
  by pat_completeness auto
termination
  by (relation "measure length") auto

subsection \<open>The sign-in session\<close>

text \<open>
  What \<open>authenticate\<close> reads of an HTTP response: the path of the final request
  (\<open>response.request.path\<close>) and the body (\<open>response.data\<close>).  A response with an error
  status is a response as well (\<open>.catch(error => error.response)\<close>).
\<close>

record response =
  path :: string
  data :: string

record Session =
  session :: string
  cookies :: string

datatype form =
    LogInRequest string string
  | PasswordUpdateRequest

text \<open>A POST of \<open>authenticate\<close>: the session code in the URL, the form and the cookie.\<close>

record auth_post =
  post_session :: string
  post_form :: form
  post_cookie :: string

text \<open>
  \<open>parseSessionCode\<close> matches the body against
  \<^verbatim>\<open>/(action=")(https:\/\/.*)(\?session_code=)(.*)(" )/\<close>
  and returns the fourth group with \<open>&amp;\<close> replaced.  The dot matches no line
  terminator, and the two stars are greedy: on the rest of the line after the leftmost
  \<^verbatim>\<open>action="https://\<close> for which the pattern matches, the fourth group ends at the last
  \<^verbatim>\<open>" \<close> and starts after the last \<^verbatim>\<open>?session_code=\<close> before it.  When nothing
  matches, \<open>matches\<close> is \<open>null\<close> and reading its length throws a \<open>TypeError\<close>: \<open>None\<close>.
\<close>

definition isLineTerminator :: "char \<Rightarrow> bool" where
  "isLineTerminator c = ((of_char c :: nat) = 10 \<or> (of_char c :: nat) = 13)"

definition matchRest :: "string \<Rightarrow> string option" where
  "matchRest line =
     (case splitLast [CHR 0x22, CHR '' ''] line of
        None \<Rightarrow> None
      | Some (a, b) \<Rightarrow>
          (case splitLast ''?session_code='' a of
             None \<Rightarrow> None
           | Some (g2, g4) \<Rightarrow> Some g4))"

fun matchAction :: "string \<Rightarrow> string option" where
  "matchAction [] = None"
| "matchAction (c # cs) =
     (if take 16 (c # cs) = ''action='' @ [CHR 0x22] @ ''https://'' then
        (case matchRest (takeWhile (\<lambda>x. \<not> isLineTerminator x) (drop 16 (c # cs))) of
           Some g \<Rightarrow> Some g
         | None \<Rightarrow> matchAction cs)
      else matchAction cs)"

definition parseSessionCode :: "response \<Rightarrow> string option" where
  "parseSessionCode r = map_option replaceAmp (matchAction (data r))"

text \<open>The \<open>else\<close> branch of \<open>authenticate\<close>: the value of the query parameter \<open>code\<close> of
  the path.  A path with no \<open>?\<close> throws (\<open>split\<close> of \<open>undefined\<close>); a query with no
  \<open>code\<close>, or with \<open>code\<close> and no \<open>=\<close>, gives \<open>undefined\<close> (\<open>None\<close>).\<close>

definition lookupCode :: "string list \<Rightarrow> string option" where
  "lookupCode splits =
     fold (\<lambda>s acc. case splitOn CHR ''='' s of
                      k # rest \<Rightarrow> if k = ''code'' then (case rest of [] \<Rightarrow> None | v # _ \<Rightarrow> Some v)
                                  else acc
                    | [] \<Rightarrow> acc)
          splits None"

definition extractCode :: "string \<Rightarrow> js_error + string option" where
  "extractCode p =
     (case splitOn CHR ''?'' p of
        _ # query # _ \<Rightarrow> Inr (lookupCode (splitOn CHR ''&'' query))
      | _ \<Rightarrow> Inl TypeError)"

text \<open>
  \<open>authenticate(request, session)\<close>.  The vendor is a script: the list of the responses
  it gives to the successive POSTs.  The result is the trace of the POSTs made and the
  value returned or the error thrown.  When the script has no response left the POST
  fails without a response, \<open>error.response\<close> is \<open>undefined\<close> and reading its request
  throws.
\<close>

fun authenticate ::
  "form \<Rightarrow> Session \<Rightarrow> response list \<Rightarrow> auth_post list \<times> (js_error + string option)" where
  "authenticate request s [] =
     ([\<lparr>post_session = session s, post_form = request, post_cookie = cookies s\<rparr>],
      Inl TypeError)"
| "authenticate request s (r # script) =
     (let p = \<lparr>post_session = session s, post_form = request, post_cookie = cookies s\<rparr>
      in if \<not> js_includes ''redirect_bridge.html'' (path r) then
           (case parseSessionCode r of
              None \<Rightarrow> ([p], Inl TypeError)
            | Some code \<Rightarrow>
                (case authenticate PasswordUpdateRequest
                        \<lparr>session = code, cookies = cookies s\<rparr> script of
                   (posts, result) \<Rightarrow> (p # posts, result)))
         else ([p], extractCode (path r)))"

text \<open>Sample responses: the page that forces a password change, and the final redirect.\<close>

definition passwordPage :: response where
  "passwordPage =
     \<lparr>path = ''/auth/realms/cw-account/login-actions/authenticate'',
      data = ''<form id='' @ [CHR 0x22] @ ''kc-form'' @ [CHR 0x22] @ '' action='' @ [CHR 0x22]
             @ ''https://id.coway.com/auth/authenticate?session_code=abc&amp;execution=e1''
             @ [CHR 0x22] @ '' method='' @ [CHR 0x22] @ ''post'' @ [CHR 0x22] @ ''>''\<rparr>"

definition finalRedirect :: response where
  "finalRedirect = \<lparr>path = ''/redirect_bridge.html?code=XYZ&state=1'', data = ''''\<rparr>"

subsection \<open>The gateway: \<open>executeIoCarePayload\<close>\<close>

text \<open>
  The token pair is an object shared by reference; its two fields hold whatever the
  vendor's refresh response held, so they are JSON values.
\<close>

record AccessToken =
  accessToken :: json
  refreshToken :: json

datatype http_method = GET | POST

text \<open>
  A request as the gateway sends it: the \<open>urlKey\<close> it was asked for, the URL (the API
  base followed by the path part of the key; for a GET the body goes into the query
  string), the transaction code header (\<open>None\<close> when the key has no \<open>::\<close>), the token of
  the \<open>Authorization: Bearer\<close> header when there is one, and the body.
\<close>

record http_request =
  req_method :: http_method
  req_urlKey :: string
  req_url :: string
  req_trcode :: "string option"
  req_authorization :: "json option"
  req_body :: json

text \<open>How a request ends: with a response (its body), with an error that carries a
  response (a status outside 2xx), or with an error that carries none.\<close>

datatype http_outcome = Resolved json | RejectedWith json | NoResponse

text \<open>
  The surroundings of the gateway: the two constants of the module \<open>enumerations\<close> it
  uses, the clock (\<open>new Date().getTime()\<close>, in milliseconds), the vendor, and two library
  functions: \<open>decodePayload\<close> is \<open>JSON.parse(Buffer.from(segment, 'base64').toString())\<close>,
  which throws on a text that is not JSON, and \<open>toNumber\<close> is the conversion \<open>ToNumber\<close>
  of a value that is neither a number nor \<open>undefined\<close>.
\<close>

record gateway_env =
  IoCareEndpoint_REFRESH_TOKEN :: string
  URL_NEW_IOCARE_API_URL :: string
  nowMillis :: rat
  vendor :: "http_request \<Rightarrow> http_outcome"
  decodePayload :: "string \<Rightarrow> js_error + json"
  toNumber :: "json \<Rightarrow> number"

text \<open>\<open>urlKey.split('::')\<close>, destructured into the path and the transaction code.\<close>

fun splitKey :: "string \<Rightarrow> string \<times> string option" where
  "splitKey [] = ([], None)"
| "splitKey (c # cs) =
     (if take 2 (c # cs) = ''::'' then
        ([], Some (fst (splitKey (drop 2 (c # cs))))) 
      else (case splitKey cs of (p, t) \<Rightarrow> (c # p, t)))"

text \<open>The comparison \<open>expire < seconds\<close> of a JSON value with a finite number.\<close>

definition js_less :: "gateway_env \<Rightarrow> json \<Rightarrow> rat \<Rightarrow> bool" where
  "js_less env v r =
     (case v of
        JNum n \<Rightarrow> num_less n r
      | JUndefined \<Rightarrow> False
      | _ \<Rightarrow> num_less (toNumber env v) r)"

definition isNullish :: "json \<Rightarrow> bool" where
  "isNullish v = (v = JUndefined \<or> v = JNull)"

text \<open>The second half of \<open>executeIoCarePayload\<close>: building the request, sending it and
  unwrapping the outcome.  An error without a response makes the handler of \<open>catch\<close>
  throw.\<close>

definition buildRequest ::
  "gateway_env \<Rightarrow> string \<Rightarrow> http_method \<Rightarrow> json \<Rightarrow> AccessToken \<Rightarrow> http_request" where
  "buildRequest env urlKey httpMethod body token =
     (case splitKey urlKey of
        (p, transactionCode) \<Rightarrow>
          \<lparr>req_method = httpMethod,
           req_urlKey = urlKey,
           req_url = URL_NEW_IOCARE_API_URL env @ p,
           req_trcode = transactionCode,
           req_authorization =
             (if truthy (accessToken token) then Some (accessToken token) else None),
           req_body = body\<rparr>)"

definition unwrap :: "http_outcome \<Rightarrow> js_error + json" where
  "unwrap outcome =
     (case outcome of
        Resolved d \<Rightarrow> Inr d
      | RejectedWith d \<Rightarrow> Inr d
      | NoResponse \<Rightarrow> Inl TypeError)"

text \<open>
  \<open>executeIoCarePayload\<close>.  The result is the token pair after the call, the requests
  sent in order, and the value returned or the error thrown.  The call for the refresh
  is the function itself with the key of the refresh endpoint, for which the check of
  the expiry is skipped.
\<close>

function executeIoCarePayload ::
  "gateway_env \<Rightarrow> string \<Rightarrow> http_method \<Rightarrow> json \<Rightarrow> AccessToken option
   \<Rightarrow> AccessToken \<times> http_request list \<times> (js_error + json)" where
  "executeIoCarePayload env urlKey httpMethod body tokenArg =
     (let token = (case tokenArg of
                     None \<Rightarrow> \<lparr>accessToken = JStr '''', refreshToken = JStr ''''\<rparr>
                   | Some t \<Rightarrow> t);
          send = (\<lambda>t calls.
                    (t, calls @ [buildRequest env urlKey httpMethod body t],
                     unwrap (vendor env (buildRequest env urlKey httpMethod body t))))
      in if truthy (accessToken token) \<and> urlKey \<noteq> IoCareEndpoint_REFRESH_TOKEN env then
           (case accessToken token of
              JStr s \<Rightarrow>
                (case splitOn CHR ''.'' s of
                   _ # segment # _ \<Rightarrow>
                     (case decodePayload env segment of
                        Inl e \<Rightarrow> (token, [], Inl e)
                      | Inr decoded \<Rightarrow>
                          if isNullish decoded then (token, [], Inl TypeError)
                          else if js_less env (js_get decoded ''exp'') (double (nowMillis env / 1000)) then
                            (case executeIoCarePayload env (IoCareEndpoint_REFRESH_TOKEN env) POST
                                    (JObj [(''refreshToken'', refreshToken token)]) (Some token) of
                               (token1, calls, Inl e) \<Rightarrow> (token1, calls, Inl TypeError)
                             | (token1, calls, Inr response) \<Rightarrow>
                                 if isNullish response \<or> isNullish (js_get response ''data'')
                                 then (token1, calls, Inl TypeError)
                                 else send \<lparr>accessToken =
                                              js_get (js_get response ''data'') ''accessToken'',
                                            refreshToken =
                                              js_get (js_get response ''data'') ''refreshToken''\<rparr>
                                        calls)
                          else send token [])
                 | _ \<Rightarrow> (token, [], Inl TypeError))
            | _ \<Rightarrow> (token, [], Inl TypeError))
         else send token [])"
  by pat_completeness auto
termination
  by (relation "measure (\<lambda>(env, urlKey, httpMethod, body, tokenArg).
        if urlKey = IoCareEndpoint_REFRESH_TOKEN env then 0 else 1)") auto

definition executeIoCarePostPayload ::
  "gateway_env \<Rightarrow> string \<Rightarrow> json \<Rightarrow> AccessToken option
   \<Rightarrow> AccessToken \<times> http_request list \<times> (js_error + json)" where
  "executeIoCarePostPayload env urlKey body tokenArg =
     executeIoCarePayload env urlKey POST body tokenArg"

definition executeIoCareGetPayload ::
  "gateway_env \<Rightarrow> string \<Rightarrow> json \<Rightarrow> AccessToken option
   \<Rightarrow> AccessToken \<times> http_request list \<times> (js_error + json)" where
  "executeIoCareGetPayload env urlKey body tokenArg =
     executeIoCarePayload env urlKey GET body tokenArg"

text \<open>The refresh requests among the requests sent.\<close>

definition refreshCalls :: "gateway_env \<Rightarrow> http_request list \<Rightarrow> http_request list" where
  "refreshCalls env calls =
     filter (\<lambda>r. req_urlKey r = IoCareEndpoint_REFRESH_TOKEN env) calls"

text \<open>
  A sample gateway.  Its tokens are of the form \<open>header.payload.signature\<close>; the sample
  decoder reads the payload segment as the decimal digits of \<open>exp\<close> (it stands for Base64
  and JSON decoding, which the properties below do not depend on).  The vendor answers
  the refresh with a new pair and everything else with an empty object.
\<close>

definition sampleGateway :: gateway_env where
  "sampleGateway =
     \<lparr>IoCareEndpoint_REFRESH_TOKEN = ''/com/refresh-token::CWIL0100'',
      URL_NEW_IOCARE_API_URL = ''https://iocareapi.iot.coway.com/api/v1'',
      nowMillis = 1700000000000,
      vendor = (\<lambda>r. if req_urlKey r = ''/com/refresh-token::CWIL0100''
                     then Resolved (JObj [(''data'',
                            JObj [(''accessToken'', JStr ''h.1700003600.s''),
                                  (''refreshToken'', JStr ''r2'')])])
                     else Resolved (JObj [])),
      decodePayload = (\<lambda>seg. Inr (JObj [(''exp'', JNum (parseInt_string (Some 10) seg))])),
      toNumber = (\<lambda>v. NaN)\<rparr>"

section \<open>Platform: the poll cycle (\<open>CowayPlatform.refreshDevicesParallel\<close>)\<close>

text \<open>
  An accessory declares the endpoints it polls (\<open>getEndpoints()\<close>).  The base class
  \<open>Accessory\<close> is not part of the sources at hand, so its methods used by the poll cycle
  are parameters of the model, gathered in a record:
  \<^item> \<open>retrieveDeviceState\<close>: the promise issued for one endpoint, given by how it settles;
  \<^item> \<open>zipEndpointResponses\<close>: turns the chunk of an accessory into its responses object;
  \<^item> \<open>refreshThrows\<close>: whether \<open>accessory.refresh\<close> throws on that argument.
\<close>

type_synonym endpoint = string

record accessory =
  barcode :: string
  endpoints :: "endpoint list"

datatype 'r settled = Fulfilled 'r | Rejected

record ('r, 'z) accessory_methods =
  retrieveDeviceState :: "accessory \<Rightarrow> endpoint \<Rightarrow> 'r settled"
  zipEndpointResponses :: "accessory \<Rightarrow> 'r list \<Rightarrow> 'z"
  refreshThrows :: "accessory \<Rightarrow> 'z \<Rightarrow> bool"

text \<open>The two nested \<open>for\<close> loops that fill \<open>queues\<close>: one promise per accessory and
  endpoint, in issue order.\<close>

definition queues :: "('r, 'z) accessory_methods \<Rightarrow> accessory list \<Rightarrow> 'r settled list" where
  "queues m accessories =
     concat (map (\<lambda>a. map (retrieveDeviceState m a) (endpoints a)) accessories)"

text \<open>\<open>Promise.all\<close>: the values in the order of the promises, or a rejection as soon as one
  of them rejects.\<close>

fun promise_all :: "'r settled list \<Rightarrow> 'r list option" where
  "promise_all [] = Some []"
| "promise_all (Rejected # ps) = None"
| "promise_all (Fulfilled r # ps) =
     (case promise_all ps of None \<Rightarrow> None | Some rs \<Rightarrow> Some (r # rs))"

text \<open>
  The second loop.  \<open>responses.splice(0, n)\<close> removes the first \<open>n\<close> elements of the array
  and returns them; on a shorter array it returns what is left, which is what \<open>take\<close> and
  \<open>drop\<close> do.  The result is the list of calls \<open>accessory.refresh(...)\<close> that were made, in
  order; a call that throws leaves the loop (the \<open>catch\<close> around the body of the function
  logs the error), so the later accessories are not refreshed.
\<close>

fun refresh_loop ::
  "('r, 'z) accessory_methods \<Rightarrow> accessory list \<Rightarrow> 'r list \<Rightarrow> (accessory \<times> 'z) list" where
  "refresh_loop m [] responses = []"
| "refresh_loop m (a # accessories) responses =
     (let chunk = take (length (endpoints a)) responses;
          rest = drop (length (endpoints a)) responses;
          arg = zipEndpointResponses m a chunk
      in (a, arg) # (if refreshThrows m a arg then [] else refresh_loop m accessories rest))"

definition refreshDevicesParallel ::
  "('r, 'z) accessory_methods \<Rightarrow> accessory list \<Rightarrow> (accessory \<times> 'z) list" where
  "refreshDevicesParallel m accessories =
     (case promise_all (queues m accessories) of
        None \<Rightarrow> []
      | Some responses \<Rightarrow> refresh_loop m accessories responses)"

text \<open>Modelled from the spec: \<open>Accessory.zipEndpointResponses\<close>, which is not in the sources.
  The spec describes it as order-dependent zipping: the i-th response of the chunk belongs
  to the i-th declared endpoint.\<close>

definition zipEndpointResponses_spec :: "accessory \<Rightarrow> 'r list \<Rightarrow> (endpoint \<times> 'r) list" where
  "zipEndpointResponses_spec a chunk = zip (endpoints a) chunk"

chapter \<open>Properties\<close>

section \<open>Rounding to binary64\<close>

declare bitLength.simps [simp del]

lemma bitLength_0: "bitLength 0 = 0"
  by (subst bitLength.simps) simp

lemma bitLength_1: "bitLength (Suc 0) = Suc 0"
  by (subst bitLength.simps) (simp add: bitLength_0)

lemma bitLength_bounds:
  "0 < n \<Longrightarrow> 2 ^ (bitLength n - 1) \<le> n \<and> n < 2 ^ bitLength n"
proof (induction n rule: bitLength.induct)
  case (1 n)
  show ?case
  proof (cases "n div 2 = 0")
    case True
    with "1.prems" have "n = Suc 0" by (auto simp: div_eq_0_iff)
    then show ?thesis
      by (simp add: bitLength_1)
  next
    case False
    then have pos: "0 < n div 2" by simp
    from "1.IH" [OF _ pos] "1.prems"
    have IH: "2 ^ (bitLength (n div 2) - 1) \<le> n div 2" "n div 2 < 2 ^ bitLength (n div 2)"
      by auto
    have bl: "bitLength n = Suc (bitLength (n div 2))"
      using "1.prems" by (subst bitLength.simps) simp
    have blpos: "0 < bitLength (n div 2)"
      using pos by (subst bitLength.simps) simp
    then have "(2::nat) ^ bitLength (n div 2) = 2 * 2 ^ (bitLength (n div 2) - 1)"
      by (cases "bitLength (n div 2)") simp_all
    with IH show ?thesis
      unfolding bl by (simp; linarith)
  qed
qed

lemma roundNearestEven_error: "\<bar>of_int (roundNearestEven m) - m\<bar> \<le> 1 / 2"
proof -
  have "of_int \<lfloor>m\<rfloor> \<le> m" "m < of_int \<lfloor>m\<rfloor> + 1" by linarith+
  then show ?thesis
    by (auto simp: roundNearestEven_def Let_def)
qed

lemma roundNearestEven_nonneg: "0 \<le> m \<Longrightarrow> 0 \<le> roundNearestEven m"
  by (auto simp: roundNearestEven_def Let_def)

lemma ilog2_lower:
  assumes "0 < x"
  shows "power_int 2 (ilog2 x) \<le> x"
proof (cases "1 \<le> x")
  case True
  then have fl: "1 \<le> \<lfloor>x\<rfloor>" by (simp only: le_floor_iff of_int_1)
  then have n: "0 < nat \<lfloor>x\<rfloor>" by linarith
  define k where "k = bitLength (nat \<lfloor>x\<rfloor>)"
  from bitLength_bounds [OF n] have b: "2 ^ (k - 1) \<le> nat \<lfloor>x\<rfloor>"
    unfolding k_def by (rule conjunct1)
  have "rat_of_nat (2 ^ (k - 1)) \<le> rat_of_nat (nat \<lfloor>x\<rfloor>)"
    using b by (simp only: of_nat_le_iff)
  also have "rat_of_nat (nat \<lfloor>x\<rfloor>) = of_int \<lfloor>x\<rfloor>"
    by (rule of_nat_nat) (use fl in linarith)
  also have "of_int \<lfloor>x\<rfloor> \<le> x" by (rule of_int_floor_le)
  finally have le: "(2::rat) ^ (k - 1) \<le> x" by (simp only: of_nat_power of_nat_numeral)
  have "k \<noteq> 0"
    unfolding k_def using n by (subst bitLength.simps) (simp only: if_not_P nat.simps; simp)
  then have "int k - 1 = int (k - 1)" by linarith
  then have "ilog2 x = int (k - 1)"
    using True unfolding ilog2_def k_def by (simp only: if_True)
  then show ?thesis using le by (simp only: power_int_of_nat)
next
  case False
  define k where "k = bitLength (nat (\<lceil>1 / x\<rceil> - 1))"
  have e: "ilog2 x = - int k"
    using False unfolding ilog2_def k_def by (simp only: if_False)
  have "x < 1" using False by linarith
  then have inv: "1 < 1 / x" using assms by (simp only: less_divide_eq_1_pos)
  then have c2: "2 \<le> \<lceil>1 / x\<rceil>" by linarith
  then have n: "0 < nat (\<lceil>1 / x\<rceil> - 1)" by linarith
  from bitLength_bounds [OF n] have "nat (\<lceil>1 / x\<rceil> - 1) < 2 ^ k"
    unfolding k_def by (rule conjunct2)
  then have "int (nat (\<lceil>1 / x\<rceil> - 1)) < int (2 ^ k)" by (simp only: of_nat_less_iff)
  then have "int (nat (\<lceil>1 / x\<rceil> - 1)) < 2 ^ k" by (simp only: of_nat_power of_nat_numeral)
  then have "\<lceil>1 / x\<rceil> - 1 < 2 ^ k" using c2 by linarith
  then have "\<lceil>1 / x\<rceil> \<le> 2 ^ k" by linarith
  then have "1 / x \<le> of_int (2 ^ k)" by (simp only: ceiling_le_iff)
  then have h: "1 / x \<le> 2 ^ k" by (simp only: of_int_power of_int_numeral)
  have kpos: "(0::rat) < 2 ^ k" by (rule zero_less_power) (rule zero_less_numeral)
  from h have "1 \<le> 2 ^ k * x" by (simp only: pos_divide_le_eq [OF assms])
  then have "1 \<le> x * 2 ^ k" by (simp only: mult.commute [of x])
  then have "1 / 2 ^ k \<le> x" by (simp only: pos_divide_le_eq [OF kpos])
  moreover have "power_int (2::rat) (- int k) = 1 / 2 ^ k"
    by (simp only: power_int_minus power_int_of_nat inverse_eq_divide)
  ultimately show ?thesis
    unfolding e by (simp only:)
qed

lemma double_error: "\<bar>double x - x\<bar> \<le> \<bar>x\<bar> / 2 ^ 53"
proof (cases "x = 0")
  case True
  then show ?thesis by (simp add: double_def)
next
  case False
  define p :: rat where "p = power_int 2 (ilog2 \<bar>x\<bar>)"
  define s :: rat where "s = power_int 2 (52 - ilog2 \<bar>x\<bar>)"
  define m where "m = \<bar>x\<bar> * s"
  define r where "r = rat_of_int (roundNearestEven m)"
  define y where "y = sgn x * m / s"
  have spos: "0 < s" and ppos: "0 < p" by (simp_all add: s_def p_def)
  have d: "double x = sgn x * r / s"
    using False by (simp add: double_def s_def m_def r_def Let_def)
  have "y = sgn x * \<bar>x\<bar> * s / s" by (simp only: y_def m_def mult.assoc)
  also have "\<dots> = sgn x * \<bar>x\<bar>" using spos by simp
  also have "\<dots> = x" by (rule mult_sgn_abs)
  finally have y: "y = x" .
  have "double x - y = sgn x * (r - m) / s"
    unfolding d y_def by (simp only: right_diff_distrib diff_divide_distrib)
  then have "\<bar>double x - y\<bar> = \<bar>sgn x\<bar> * \<bar>r - m\<bar> / \<bar>s\<bar>"
    by (simp only: abs_mult abs_divide)
  also have "\<bar>sgn x\<bar> = 1" using False by (simp add: abs_sgn_eq)
  also have "\<bar>s\<bar> = s" using spos by simp
  finally have "\<bar>double x - y\<bar> = \<bar>r - m\<bar> / s" by simp
  also have "\<dots> \<le> (1 / 2) / s"
    by (rule divide_right_mono) (use roundNearestEven_error [of m] spos in \<open>simp_all add: r_def\<close>)
  also have "\<dots> = 1 / (2 * s)" by simp
  finally have err: "\<bar>double x - x\<bar> \<le> 1 / (2 * s)" unfolding y .
  have px: "p \<le> \<bar>x\<bar>"
    unfolding p_def using False by (intro ilog2_lower) simp
  have "s = power_int 2 52 / p"
    unfolding s_def p_def by (rule power_int_diff) simp
  then have "p * s = 2 ^ 52" using ppos by simp
  moreover have "p * s \<le> \<bar>x\<bar> * s"
    by (rule mult_right_mono [OF px]) (use spos in simp)
  ultimately have big: "2 ^ 52 \<le> \<bar>x\<bar> * s" by simp
  have "1 / (2 * s) \<le> \<bar>x\<bar> / 2 ^ 53"
  proof -
    define t where "t = \<bar>x\<bar> * s"
    have eq: "\<bar>x\<bar> * (2 * s) = 2 * t" by (simp only: t_def mult.left_commute)
    have "2 ^ 52 \<le> t" using big by (simp only: t_def)
    then have "2 ^ 53 \<le> 2 * t" by simp
    then have "1 * 2 ^ 53 \<le> \<bar>x\<bar> * (2 * s)" by (simp only: eq mult_1)
    moreover have "(0::rat) < 2 ^ 53" "0 < 2 * s" using spos by simp_all
    ultimately show ?thesis by (simp only: frac_le_eq divide_le_cancel) (simp add: field_simps)
  qed
  with err show ?thesis by linarith
qed

lemma double_0 [simp]: "double 0 = 0"
  by (simp add: double_def)

lemma double_nonneg:
  assumes "0 \<le> x"
  shows "0 \<le> double x"
proof (cases "x = 0")
  case True
  then show ?thesis by (simp add: double_def)
next
  case False
  with assms have pos: "0 < x" by simp
  define s :: rat where "s = power_int 2 (52 - ilog2 \<bar>x\<bar>)"
  have spos: "0 < s" by (simp add: s_def)
  have "0 \<le> \<bar>x\<bar> * s" using spos by simp
  then have "0 \<le> roundNearestEven (\<bar>x\<bar> * s)" by (rule roundNearestEven_nonneg)
  then have "0 \<le> rat_of_int (roundNearestEven (\<bar>x\<bar> * s)) / s"
    using spos by simp
  moreover have "double x = rat_of_int (roundNearestEven (\<bar>x\<bar> * s)) / s"
    using pos by (simp add: double_def s_def Let_def)
  ultimately show ?thesis by simp
qed


lemma double_near:
  assumes "\<bar>x\<bar> \<le> b"
  shows "\<bar>double x - x\<bar> \<le> b / 2 ^ 53"
proof -
  have "\<bar>x\<bar> / 2 ^ 53 \<le> b / 2 ^ 53"
    using assms by (simp add: divide_right_mono)
  with double_error [of x] show ?thesis by linarith
qed

subsection \<open>The whole range\<close>


lemma roundNearestEven_of_int: "roundNearestEven (of_int k) = k"
  by (simp add: roundNearestEven_def)


lemma ilog2_upper:
  assumes "0 < x"
  shows "x < power_int 2 (ilog2 x + 1)"
proof (cases "1 \<le> x")
  case True
  then have fl: "1 \<le> \<lfloor>x\<rfloor>" by (simp only: le_floor_iff of_int_1)
  then have n: "0 < nat \<lfloor>x\<rfloor>" by linarith
  define k where "k = bitLength (nat \<lfloor>x\<rfloor>)"
  from bitLength_bounds [OF n] have b: "nat \<lfloor>x\<rfloor> < 2 ^ k"
    unfolding k_def by (rule conjunct2)
  then have "int (nat \<lfloor>x\<rfloor>) < int (2 ^ k)" by (simp only: of_nat_less_iff)
  then have "\<lfloor>x\<rfloor> < 2 ^ k" using fl by simp
  then have "\<lfloor>x\<rfloor> + 1 \<le> 2 ^ k" by linarith
  then have "rat_of_int (\<lfloor>x\<rfloor> + 1) \<le> rat_of_int (2 ^ k)" by (simp only: of_int_le_iff)
  moreover have "x < rat_of_int (\<lfloor>x\<rfloor> + 1)" by linarith
  ultimately have "x < 2 ^ k" by simp
  moreover have "ilog2 x + 1 = int k"
    using True unfolding ilog2_def k_def by simp
  ultimately show ?thesis by (simp only: power_int_of_nat)
next
  case False
  define k where "k = bitLength (nat (\<lceil>1 / x\<rceil> - 1))"
  have e: "ilog2 x = - int k"
    using False unfolding ilog2_def k_def by (simp only: if_False)
  have "x < 1" using False by linarith
  then have inv: "1 < 1 / x" using assms by (simp only: less_divide_eq_1_pos)
  then have c2: "2 \<le> \<lceil>1 / x\<rceil>" by linarith
  then have n: "0 < nat (\<lceil>1 / x\<rceil> - 1)" by linarith
  have kpos: "0 < k"
    unfolding k_def using n by (subst bitLength.simps) simp
  from bitLength_bounds [OF n] have "2 ^ (k - 1) \<le> nat (\<lceil>1 / x\<rceil> - 1)"
    unfolding k_def by (rule conjunct1)
  then have "int (2 ^ (k - 1)) \<le> int (nat (\<lceil>1 / x\<rceil> - 1))" by (simp only: of_nat_le_iff)
  then have "2 ^ (k - 1) \<le> int (nat (\<lceil>1 / x\<rceil> - 1))"
    by (simp only: of_nat_power of_nat_numeral)
  then have "2 ^ (k - 1) < \<lceil>1 / x\<rceil>" using c2 by linarith
  then have "rat_of_int (2 ^ (k - 1)) < 1 / x" by (simp only: less_ceiling_iff)
  then have h: "2 ^ (k - 1) < 1 / x" by simp
  have ppos: "(0::rat) < 2 ^ (k - 1)" by simp
  from h have "2 ^ (k - 1) * x < 1" using assms by (simp add: field_simps)
  then have "x < 1 / 2 ^ (k - 1)" using ppos by (simp add: field_simps)
  moreover have "ilog2 x + 1 = - int (k - 1)" using e kpos by simp
  moreover have "power_int (2::rat) (- int (k - 1)) = 1 / 2 ^ (k - 1)"
    by (simp only: power_int_minus power_int_of_nat inverse_eq_divide)
  ultimately show ?thesis by simp
qed

lemma ilog2_eq:
  assumes "power_int 2 e \<le> x" and "x < power_int 2 (e + 1)"
  shows "ilog2 x = e"
proof -
  have "(0::rat) < power_int 2 e" by simp
  with assms(1) have pos: "0 < x" by linarith
  have "\<not> e + 1 \<le> ilog2 x"
  proof
    assume "e + 1 \<le> ilog2 x"
    then have "power_int (2::rat) (e + 1) \<le> power_int 2 (ilog2 x)"
      by (rule power_int_increasing) simp
    with ilog2_lower [OF pos] assms(2) show False by linarith
  qed
  moreover have "\<not> ilog2 x + 1 \<le> e"
  proof
    assume "ilog2 x + 1 \<le> e"
    then have "power_int (2::rat) (ilog2 x + 1) \<le> power_int 2 e"
      by (rule power_int_increasing) simp
    with ilog2_upper [OF pos] assms(1) show False by linarith
  qed
  ultimately show ?thesis by linarith
qed

lemma double_exact:
  assumes "x \<noteq> 0" and "\<bar>x\<bar> * power_int 2 (52 - ilog2 \<bar>x\<bar>) \<in> \<int>"
  shows "double x = x"
proof -
  define s :: rat where "s = power_int 2 (52 - ilog2 \<bar>x\<bar>)"
  have spos: "0 < s" by (simp add: s_def)
  from assms(2) obtain k where k: "\<bar>x\<bar> * s = of_int k"
    unfolding s_def by (auto elim: Ints_cases)
  have "double x = sgn x * of_int (roundNearestEven (\<bar>x\<bar> * s)) / s"
    using assms(1) by (simp add: double_def s_def Let_def)
  also have "\<dots> = sgn x * (\<bar>x\<bar> * s) / s"
    by (simp only: k roundNearestEven_of_int)
  also have "\<dots> = sgn x * \<bar>x\<bar>" using spos by simp
  also have "\<dots> = x" by (rule mult_sgn_abs)
  finally show ?thesis .
qed

lemma binary64_exact:
  assumes "power_int 2 e \<le> \<bar>x\<bar>" and "\<bar>x\<bar> < power_int 2 (e + 1)"
    and "- 1022 \<le> e" and "e \<le> 1023"
    and "\<bar>x\<bar> * power_int 2 (52 - e) \<in> \<int>"
  shows "binary64 x = Fin x"
proof -
  have e: "ilog2 \<bar>x\<bar> = e" by (rule ilog2_eq [OF assms(1,2)])
  have "(0::rat) < power_int 2 e" by simp
  with assms(1) have "0 < \<bar>x\<bar>" by linarith
  then have nz: "x \<noteq> 0" by simp
  have d: "double x = x"
    by (rule double_exact [OF nz]) (simp only: e assms(5))
  have "power_int (2::rat) (- 1022) \<le> power_int 2 e"
    by (rule power_int_increasing [OF assms(3)]) simp
  moreover have "power_int (2::rat) (- 1022) = 1 / 2 ^ 1022"
    by (simp add: power_int_minus_divide)
  ultimately have low: "\<not> \<bar>x\<bar> < 1 / 2 ^ 1022" using assms(1) by linarith
  have "power_int (2::rat) (e + 1) \<le> power_int 2 1024"
    by (rule power_int_increasing) (use assms(4) in simp_all)
  then have high: "\<not> 2 ^ 1024 \<le> \<bar>x\<bar>" using assms(2) by simp
  show ?thesis
    unfolding binary64_def d using low high by (simp only: if_False)
qed





lemma binary64_0: "binary64 0 = Fin 0"
  by (simp add: binary64_def)

lemma binary64_samples:
  shows "binary64 (- 1) = Fin (- 1)"
    and "binary64 12 = Fin 12"
    and "binary64 (25 / 2) = Fin (25 / 2)"
    and "binary64 87 = Fin 87"
    and "binary64 (- 87) = Fin (- 87)"
    and "binary64 (175 / 2) = Fin (175 / 2)"
    and "binary64 1699999999 = Fin 1699999999"
    and "binary64 1700003600 = Fin 1700003600"
proof -
  show "binary64 (- 1) = Fin (- 1)" by (rule binary64_exact [where e = 0]) simp_all
  show "binary64 12 = Fin 12" by (rule binary64_exact [where e = 3]) simp_all
  show "binary64 (25 / 2) = Fin (25 / 2)" by (rule binary64_exact [where e = 3]) simp_all
  show "binary64 87 = Fin 87" by (rule binary64_exact [where e = 6]) simp_all
  show "binary64 (- 87) = Fin (- 87)" by (rule binary64_exact [where e = 6]) simp_all
  show "binary64 (175 / 2) = Fin (175 / 2)" by (rule binary64_exact [where e = 6]) simp_all
  show "binary64 1699999999 = Fin 1699999999" by (rule binary64_exact [where e = 30]) simp_all
  show "binary64 1700003600 = Fin 1700003600" by (rule binary64_exact [where e = 30]) simp_all
qed

section \<open>Percentages and levels\<close>

lemma ROTATION_SPEED_UNIT_bounds:
  "\<bar>ROTATION_SPEED_UNIT - 50 / 3\<bar> \<le> 1 / 10 ^ 12"
  "16 < ROTATION_SPEED_UNIT" "ROTATION_SPEED_UNIT < 17"
proof -
  have "\<bar>double (100 / 6) - 100 / 6\<bar> \<le> (17 :: rat) / 2 ^ 53"
    by (rule double_near) simp
  moreover have "(17 :: rat) / 2 ^ 53 \<le> 1 / 10 ^ 12" by simp
  ultimately show a: "\<bar>ROTATION_SPEED_UNIT - 50 / 3\<bar> \<le> 1 / 10 ^ 12"
    unfolding ROTATION_SPEED_UNIT_def by simp
  then have "\<bar>ROTATION_SPEED_UNIT - 50 / 3\<bar> \<le> 1 / 10" by simp
  then show "16 < ROTATION_SPEED_UNIT" "ROTATION_SPEED_UNIT < 17"
    by linarith+
qed

lemma toFixed0_parseInt_near:
  assumes "0 \<le> l" and "l \<le> 6" and "\<bar>y - of_int l\<bar> < 1 / 2"
  shows "toFixed0_parseInt y = l"
proof -
  from assms(3) have lo: "of_int l - 1 / 2 < y" and hi: "y < of_int l + 1 / 2"
    by linarith+
  have l6: "rat_of_int l \<le> 6" and l0: "0 \<le> rat_of_int l" using assms by simp_all
  have "\<bar>y\<bar> < 7" using lo hi l6 l0 by linarith
  then have small: "\<bar>y\<bar> < 10 ^ 21" by simp
  show ?thesis
  proof (cases "y < 0")
    case True
    with lo l0 have "rat_of_int l < 1" by linarith
    then have "l < 1" by simp
    with assms(1) have l: "l = 0" by simp
    have "\<lfloor>- y + 1 / 2\<rfloor> = 0"
      by (rule floor_unique) (use True lo l in simp_all)
    then show ?thesis using True small l by (simp add: toFixed0_parseInt_def)
  next
    case False
    have "\<lfloor>y + 1 / 2\<rfloor> = l"
      by (rule floor_unique) (use lo hi in simp_all)
    then show ?thesis using False small by (simp add: toFixed0_parseInt_def)
  qed
qed

lemma newRotationSpeed_near:
  assumes "0 \<le> l" and "l \<le> 6" and "\<bar>p - of_int l * (50 / 3)\<bar> \<le> 1"
  shows "newRotationSpeed p = l"
proof -
  define U where "U = ROTATION_SPEED_UNIT"
  define x where "x = p / U"
  note ub = ROTATION_SPEED_UNIT_bounds [folded U_def]
  have l6: "rat_of_int l \<le> 6" and l0: "0 \<le> rat_of_int l" using assms by simp_all
  have "\<bar>of_int l * (50 / 3 - U)\<bar> = of_int l * \<bar>U - 50 / 3\<bar>"
    using l0 by (simp add: abs_mult abs_minus_commute)
  also have "\<dots> \<le> 6 * (1 / 10 ^ 12)"
    by (rule mult_mono) (use l6 l0 ub(1) in simp_all)
  finally have "\<bar>of_int l * (50 / 3 - U)\<bar> \<le> 1 / 10" by simp
  moreover have "p - of_int l * U = (p - of_int l * (50 / 3)) + of_int l * (50 / 3 - U)"
    by (simp add: algebra_simps)
  ultimately have num: "\<bar>p - of_int l * U\<bar> \<le> 11 / 10"
    using assms(3) by linarith
  have "x - of_int l = (p - of_int l * U) / U"
    using ub(2) by (simp add: x_def diff_divide_distrib)
  then have "\<bar>x - of_int l\<bar> = \<bar>p - of_int l * U\<bar> / U"
    using ub(2) by (simp add: abs_divide)
  also have "\<dots> \<le> (11 / 10) / 16"
    by (rule frac_le) (use num ub(2) in simp_all)
  finally have xl: "\<bar>x - of_int l\<bar> \<le> 11 / 160" by simp
  then have "\<bar>x\<bar> \<le> 7" using l6 l0 by linarith
  then have "\<bar>double x - x\<bar> \<le> 7 / 2 ^ 53" by (rule double_near)
  moreover have "(7 :: rat) / 2 ^ 53 \<le> 1 / 100" by simp
  ultimately have "\<bar>double x - of_int l\<bar> < 1 / 2" using xl by linarith
  then have "toFixed0_parseInt (double x) = l"
    by (rule toFixed0_parseInt_near [OF assms(1,2)])
  then show ?thesis by (simp add: newRotationSpeed_def x_def U_def)
qed

lemma percentageOfLevel_near:
  assumes "0 \<le> l" and "l \<le> 6"
  shows "\<bar>percentageOfLevel l - of_int l * (50 / 3)\<bar> \<le> 1"
proof -
  define U where "U = ROTATION_SPEED_UNIT"
  note ub = ROTATION_SPEED_UNIT_bounds [folded U_def]
  have l6: "rat_of_int l \<le> 6" and l0: "0 \<le> rat_of_int l" using assms by simp_all
  have "of_int l * U \<le> 6 * 17"
    by (rule mult_mono) (use l6 l0 ub in simp_all)
  moreover have "0 \<le> of_int l * U" using l0 ub(2) by simp
  ultimately have "\<bar>of_int l * U\<bar> \<le> 102" by simp
  then have "\<bar>double (of_int l * U) - of_int l * U\<bar> \<le> 102 / 2 ^ 53" by (rule double_near)
  moreover have "(102 :: rat) / 2 ^ 53 \<le> 1 / 100" by simp
  moreover have "\<bar>of_int l * (50 / 3 - U)\<bar> \<le> 1 / 10"
  proof -
    have "\<bar>of_int l * (50 / 3 - U)\<bar> = of_int l * \<bar>U - 50 / 3\<bar>"
      using l0 by (simp add: abs_mult abs_minus_commute)
    also have "\<dots> \<le> 6 * (1 / 10 ^ 12)"
      by (rule mult_mono) (use l6 l0 ub(1) in simp_all)
    finally show ?thesis by simp
  qed
  moreover have "double (of_int l * U) - of_int l * (50 / 3) =
      (double (of_int l * U) - of_int l * U) - of_int l * (50 / 3 - U)"
    by (simp add: algebra_simps)
  ultimately show ?thesis
    unfolding percentageOfLevel_def U_def [symmetric] by linarith
qed

lemma newRotationSpeed_range:
  assumes "0 \<le> p" and "p \<le> 100"
  shows "0 \<le> newRotationSpeed p" and "newRotationSpeed p \<le> 6"
proof -
  define U where "U = ROTATION_SPEED_UNIT"
  define x where "x = p / U"
  note ub = ROTATION_SPEED_UNIT_bounds [folded U_def]
  have x0: "0 \<le> x" using assms(1) ub(2) by (simp add: x_def)
  have "p / U \<le> 100 / 16"
    by (rule frac_le) (use assms ub(2) in simp_all)
  then have x6: "x \<le> 25 / 4" by (simp add: x_def)
  have y0: "0 \<le> double x" using x0 by (rule double_nonneg)
  have "\<bar>x\<bar> \<le> 7" using x0 x6 by simp
  then have "\<bar>double x - x\<bar> \<le> 7 / 2 ^ 53" by (rule double_near)
  moreover have "(7 :: rat) / 2 ^ 53 \<le> 1 / 100" by simp
  ultimately have y6: "double x < 13 / 2" using x6 by linarith
  have small: "\<bar>double x\<bar> < 10 ^ 21" using y0 y6 by simp
  have eq: "newRotationSpeed p = \<lfloor>double x + 1 / 2\<rfloor>"
    using y0 small by (simp add: newRotationSpeed_def toFixed0_parseInt_def x_def U_def)
  have "(0 :: rat) \<le> double x + 1 / 2" using y0 by simp
  then show "0 \<le> newRotationSpeed p" unfolding eq by simp
  have "double x + 1 / 2 < of_int 7" using y6 by simp
  then have "\<lfloor>double x + 1 / 2\<rfloor> < 7" by (simp only: floor_less_iff)
  then show "newRotationSpeed p \<le> 6" unfolding eq by simp
qed

lemma LIGHTBULB_BRIGHTNESS_UNIT_bounds:
  "\<bar>LIGHTBULB_BRIGHTNESS_UNIT - 100 / 3\<bar> \<le> 1 / 10 ^ 12"
  "33 < LIGHTBULB_BRIGHTNESS_UNIT" "LIGHTBULB_BRIGHTNESS_UNIT < 34"
proof -
  have "\<bar>double (100 / 3) - 100 / 3\<bar> \<le> (34 :: rat) / 2 ^ 53"
    by (rule double_near) simp
  moreover have "(34 :: rat) / 2 ^ 53 \<le> 1 / 10 ^ 12" by simp
  ultimately show a: "\<bar>LIGHTBULB_BRIGHTNESS_UNIT - 100 / 3\<bar> \<le> 1 / 10 ^ 12"
    unfolding LIGHTBULB_BRIGHTNESS_UNIT_def by simp
  then have "\<bar>LIGHTBULB_BRIGHTNESS_UNIT - 100 / 3\<bar> \<le> 1 / 10" by simp
  then show "33 < LIGHTBULB_BRIGHTNESS_UNIT" "LIGHTBULB_BRIGHTNESS_UNIT < 34"
    by linarith+
qed

lemma brightness_near:
  assumes "0 \<le> b" and "b \<le> 3" and "\<bar>v - of_int b * (100 / 3)\<bar> \<le> 1"
  shows "round (double (v / LIGHTBULB_BRIGHTNESS_UNIT)) = b"
proof -
  define U where "U = LIGHTBULB_BRIGHTNESS_UNIT"
  define x where "x = v / U"
  note ub = LIGHTBULB_BRIGHTNESS_UNIT_bounds [folded U_def]
  have b3: "rat_of_int b \<le> 3" and b0: "0 \<le> rat_of_int b" using assms by simp_all
  have "\<bar>of_int b * (100 / 3 - U)\<bar> = of_int b * \<bar>U - 100 / 3\<bar>"
    using b0 by (simp add: abs_mult abs_minus_commute)
  also have "\<dots> \<le> 3 * (1 / 10 ^ 12)"
    by (rule mult_mono) (use b3 b0 ub(1) in simp_all)
  finally have "\<bar>of_int b * (100 / 3 - U)\<bar> \<le> 1 / 10" by simp
  moreover have "v - of_int b * U = (v - of_int b * (100 / 3)) + of_int b * (100 / 3 - U)"
    by (simp add: algebra_simps)
  ultimately have num: "\<bar>v - of_int b * U\<bar> \<le> 11 / 10"
    using assms(3) by linarith
  have "x - of_int b = (v - of_int b * U) / U"
    using ub(2) by (simp add: x_def diff_divide_distrib)
  then have "\<bar>x - of_int b\<bar> = \<bar>v - of_int b * U\<bar> / U"
    using ub(2) by (simp add: abs_divide)
  also have "\<dots> \<le> (11 / 10) / 33"
    by (rule frac_le) (use num ub(2) in simp_all)
  finally have xb: "\<bar>x - of_int b\<bar> \<le> 1 / 30" by simp
  then have "\<bar>x\<bar> \<le> 4" using b3 b0 by linarith
  then have "\<bar>double x - x\<bar> \<le> 4 / 2 ^ 53" by (rule double_near)
  moreover have "(4 :: rat) / 2 ^ 53 \<le> 1 / 100" by simp
  ultimately have near: "\<bar>double x - of_int b\<bar> < 1 / 2" using xb by linarith
  have "\<lfloor>double x + 1 / 2\<rfloor> = b"
    by (rule floor_unique) (use near in linarith)+
  then show ?thesis by (simp add: round_def x_def U_def)
qed

section \<open>The numeric field parsers\<close>

lemma char_simps:
  "isDigit c = (48 \<le> (of_char c :: nat) \<and> (of_char c :: nat) \<le> 57)"
  "isWhiteSpace c = ((of_char c :: nat) \<in> {9, 10, 11, 12, 13, 32, 160})"
  by (simp_all add: isDigit_def isWhiteSpace_def)






























lemma parse_examples:
  "parseNullableInt (JStr ''abc'') = Fin 0"
  "parseNullableFloat (JStr ''abc'') = Fin 0"
  "parseNullableFloat (JObj []) = Fin 0"
  "parseNullableInt (JBool True) = Fin 0"
  "parseNullableInt (JStr ''0'') = Fin 0"
  by (simp_all add: parseNullableInt_def parseNullableFloat_def js_parseInt_def
      js_parseFloat_def parseInt_string_def parseFloat_string_def splitSign_def
      char_simps digitsValue_def digitValue_def isNaN_def binary64_0)



section \<open>Air quality\<close>

lemma pm10Level_classify: "pm10Level n = ordinal (classify 10 30 80 150 n)"
  by (simp add: pm10Level_def classify_def AirQuality_UNKNOWN_def AirQuality_EXCELLENT_hap_def
      AirQuality_GOOD_def AirQuality_FAIR_def AirQuality_INFERIOR_def AirQuality_POOR_def)

lemma pm25Level_classify: "pm25Level n = ordinal (classify 5 15 35 75 n)"
  by (simp add: pm25Level_def classify_def AirQuality_UNKNOWN_def AirQuality_EXCELLENT_hap_def
      AirQuality_GOOD_def AirQuality_FAIR_def AirQuality_INFERIOR_def AirQuality_POOR_def)

lemma ordinal_worse: "ordinal (worse a b) = max (ordinal a) (ordinal b)"
  by (simp add: worse_def max_def)

lemma getCurrentAirQuality_reference:
  "getCurrentAirQuality ctx =
     ordinal (reference_air_quality (on (controlInfo ctx))
                (reading_of (pm10Density (indoorAirQuality ctx)))
                (reading_of (pm25Density (indoorAirQuality ctx))))"
proof (cases "on (controlInfo ctx)")
  case False
  then show ?thesis
    by (simp add: getCurrentAirQuality_def reference_air_quality_def AirQuality_UNKNOWN_def)
next
  case True
  show ?thesis
  proof (cases "isNotNull (pm10Density (indoorAirQuality ctx))")
    case p10: True
    then obtain x where x: "pm10Density (indoorAirQuality ctx) = Some x"
      by (auto simp: isNotNull_def split: option.splits)
    show ?thesis
    proof (cases "isNotNull (pm25Density (indoorAirQuality ctx))")
      case p25: True
      then obtain y where y: "pm25Density (indoorAirQuality ctx) = Some y"
        by (auto simp: isNotNull_def split: option.splits)
      from True p10 p25 show ?thesis
        by (simp add: Let_def getCurrentAirQuality_def reference_air_quality_def reading_of_def x y
            pm10Level_classify pm25Level_classify ordinal_worse max.commute)
    next
      case p25: False
      from True p10 p25 show ?thesis
        by (simp add: Let_def getCurrentAirQuality_def reference_air_quality_def reading_of_def x
            pm10Level_classify split: option.splits)
    qed
  next
    case p10: False
    show ?thesis
    proof (cases "isNotNull (pm25Density (indoorAirQuality ctx))")
      case p25: True
      then obtain y where y: "pm25Density (indoorAirQuality ctx) = Some y"
        by (auto simp: isNotNull_def split: option.splits)
      from True p10 p25 show ?thesis
        by (simp add: Let_def getCurrentAirQuality_def reference_air_quality_def reading_of_def y
            pm25Level_classify AirQuality_UNKNOWN_def split: option.splits)
    next
      case p25: False
      from True p10 p25 show ?thesis
        by (auto simp: Let_def getCurrentAirQuality_def reference_air_quality_def reading_of_def
            AirQuality_UNKNOWN_def split: option.splits)
    qed
  qed
qed

text \<open>
  What a poll stores for a payload that omits a density: \<open>getIndoorAirQuality\<close> defaults
  the field to 0, which is a reading (and classifies as excellent), not a missing one.
\<close>

lemma getIndoorAirQuality_missing_field:
  "pm25Density (getIndoorAirQuality (JObj [(''IAQ'', JObj [(''dustpm10'', JStr ''-1'')])]))
     = Some (Fin 0)
   \<and> pm10Density (getIndoorAirQuality (JObj [(''IAQ'', JObj [(''dustpm10'', JStr ''-1'')])]))
     = Some (Fin (- 1))"
  by (simp add: getIndoorAirQuality_def js_get_def parseNullableFloat_def js_parseFloat_def
      parseFloat_string_def splitSign_def char_simps digitsValue_def digitValue_def
      exponentPart_def scale10_def isNaN_def binary64_samples)

text \<open>
  Claim C4.  The reported air quality is the ordinal of the reference classifier applied to
  the power state and the two readings of the context: each reading is classified by
  its own breakpoints, a negative one as unknown, the result is the worse of the
  classifications of the readings that are available, and it is unknown when the device is
  off or no reading is available.  In particular PM10 = -1 with no PM2.5 reading, device
  on, gives unknown, and PM10 = 5 with PM2.5 = 40 gives inferior.
\<close>

theorem getCurrentAirQuality_is_reference:
  "getCurrentAirQuality ctx =
     ordinal (reference_air_quality (on (controlInfo ctx))
                (reading_of (pm10Density (indoorAirQuality ctx)))
                (reading_of (pm25Density (indoorAirQuality ctx))))
   \<and> (\<not> on (controlInfo ctx) \<longrightarrow> getCurrentAirQuality ctx = AirQuality_UNKNOWN)
   \<and> (\<not> isNotNull (pm10Density (indoorAirQuality ctx))
        \<and> \<not> isNotNull (pm25Density (indoorAirQuality ctx))
      \<longrightarrow> getCurrentAirQuality ctx = AirQuality_UNKNOWN)
   \<and> (on (controlInfo ctx) \<and> pm10Density (indoorAirQuality ctx) = Some (Fin (- 1))
        \<and> pm25Density (indoorAirQuality ctx) = None
      \<longrightarrow> getCurrentAirQuality ctx = AirQuality_UNKNOWN)
   \<and> (on (controlInfo ctx) \<and> pm10Density (indoorAirQuality ctx) = Some (Fin 5)
        \<and> pm25Density (indoorAirQuality ctx) = Some (Fin 40)
      \<longrightarrow> getCurrentAirQuality ctx = AirQuality_INFERIOR)"
proof -
  have "\<not> on (controlInfo ctx) \<longrightarrow> getCurrentAirQuality ctx = AirQuality_UNKNOWN"
    by (simp add: getCurrentAirQuality_def)
  moreover have "\<not> isNotNull (pm10Density (indoorAirQuality ctx))
        \<and> \<not> isNotNull (pm25Density (indoorAirQuality ctx))
      \<longrightarrow> getCurrentAirQuality ctx = AirQuality_UNKNOWN"
    by (simp add: getCurrentAirQuality_def Let_def split: option.splits)
  moreover have "on (controlInfo ctx) \<and> pm10Density (indoorAirQuality ctx) = Some (Fin (- 1))
        \<and> pm25Density (indoorAirQuality ctx) = None
      \<longrightarrow> getCurrentAirQuality ctx = AirQuality_UNKNOWN"
    by (simp add: getCurrentAirQuality_def Let_def isNotNull_def isNaN_def pm10Level_def)
  moreover have "on (controlInfo ctx) \<and> pm10Density (indoorAirQuality ctx) = Some (Fin 5)
        \<and> pm25Density (indoorAirQuality ctx) = Some (Fin 40)
      \<longrightarrow> getCurrentAirQuality ctx = AirQuality_INFERIOR"
    by (simp add: getCurrentAirQuality_def Let_def isNotNull_def isNaN_def pm10Level_def
        pm25Level_def AirQuality_INFERIOR_def AirQuality_EXCELLENT_hap_def)
  ultimately show ?thesis
    using getCurrentAirQuality_reference [of ctx] by blast
qed

theorem getCurrentAirQuality_is_reference_witness:
  "getCurrentAirQuality sampleAccessory = AirQuality_UNKNOWN
   \<and> getCurrentAirQuality (setOn True sampleAccessory) = AirQuality_INFERIOR
   \<and> getCurrentAirQuality (setDensities (Some (Fin (- 1))) None (setOn True sampleAccessory))
       = AirQuality_UNKNOWN
   \<and> getCurrentAirQuality (setDensities None None (setOn True sampleAccessory))
       = AirQuality_UNKNOWN
   \<and> getCurrentAirQuality (setDensities (Some (Fin (- 1))) (Some (Fin 0)) (setOn True sampleAccessory))
       = ordinal (worse Unknown Excellent)"
  using getCurrentAirQuality_is_reference [of sampleAccessory]
    getCurrentAirQuality_is_reference [of "setOn True sampleAccessory"]
    getCurrentAirQuality_is_reference
      [of "setDensities (Some (Fin (- 1))) None (setOn True sampleAccessory)"]
    getCurrentAirQuality_is_reference [of "setDensities None None (setOn True sampleAccessory)"]
    getCurrentAirQuality_is_reference
      [of "setDensities (Some (Fin (- 1))) (Some (Fin 0)) (setOn True sampleAccessory)"]
  by (simp add: sampleAccessory_def setOn_def setDensities_def isNotNull_def isNaN_def
      reference_air_quality_def reading_of_def classify_def)

section \<open>Refresh of a device that is not connected\<close>

text \<open>
  Claim C9.  When the device is not connected after the step of the base class, \<open>refresh\<close>
  returns the accessory as that step left it, whatever the responses hold: it stores
  nothing in \<open>filterInfos\<close>, \<open>indoorAirQuality\<close> and \<open>controlInfo\<close>, and it pushes no
  characteristic.
\<close>

theorem refresh_not_connected:
  assumes "super_refresh responses s = Inr s1" and "\<not> isConnected s1"
  shows "refresh E super_refresh refreshCharacteristics responses s = Inr s1
       \<and> (\<forall>s'. refresh E super_refresh refreshCharacteristics responses s = Inr s' \<longrightarrow>
             filterInfos s' = filterInfos s1 \<and> indoorAirQuality s' = indoorAirQuality s1
           \<and> controlInfo s' = controlInfo s1 \<and> pushed s' = pushed s1 \<and> sent s' = sent s1)"
  using assms by (simp add: refresh_def)

theorem refresh_not_connected_witness:
  "refresh sampleEnumerations (\<lambda>r s. Inr (s\<lparr>isConnected := False\<rparr>))
     sampleRefreshCharacteristics
     [''control'' \<mapsto> JObj [(''controlStatus'', JObj [(''0001'', JStr ''1'')])],
      ''home'' \<mapsto> JObj [(''IAQ'', JObj [(''dustpm10'', JStr ''12'')])],
      ''filter'' \<mapsto> JObj [(''filterList'', JArr [JNull])]]
     sampleAccessory
   = Inr (sampleAccessory\<lparr>isConnected := False\<rparr>)"
  using refresh_not_connected
    [where super_refresh = "\<lambda>r s. Inr (s\<lparr>isConnected := False\<rparr>)"
       and responses = "[''control'' \<mapsto> JObj [(''controlStatus'', JObj [(''0001'', JStr ''1'')])],
          ''home'' \<mapsto> JObj [(''IAQ'', JObj [(''dustpm10'', JStr ''12'')])],
          ''filter'' \<mapsto> JObj [(''filterList'', JArr [JNull])]]"
       and s = sampleAccessory and ?s1.0 = "sampleAccessory\<lparr>isConnected := False\<rparr>"
       and E = sampleEnumerations and refreshCharacteristics = sampleRefreshCharacteristics]
  by simp
section \<open>The SET handlers\<close>

lemma newRotationSpeed_50: "newRotationSpeed 50 = 3"
  by (rule newRotationSpeed_near) simp_all

lemma newRotationSpeed_0: "newRotationSpeed 0 = 0"
  by (rule newRotationSpeed_near) simp_all

text \<open>
  Claim C2, as the code has it.  With the device off, outside a characteristic refresh in
  auto mode, a percentage that decodes to a level from 1 to 6 other than the level the
  device reports sends one batch of two commands: power on, then the command of the
  level, which is the mode silent, turbo or pet for the levels 1, 5 and 6 and the fan
  speed weak, medium or strong for the levels 2, 3 and 4.  A percentage that decodes to
  the level the device reports sends nothing, and neither does any percentage while the
  mode is auto-driving and a characteristic refresh is in progress; in both cases the
  accessory is left as it was.
\<close>

theorem rotationSpeed_set_off:
  "(\<not> on (controlInfo s)
      \<and> \<not> (mode (controlInfo s) = JStr (Mode_AUTO_DRIVING E) \<and> characteristicRefreshing s)
      \<and> 1 \<le> newRotationSpeed value \<and> newRotationSpeed value \<le> 6
      \<and> getRotationSpeed E s \<noteq> newRotationSpeed value
    \<longrightarrow> rotationSpeed_set E value s =
          (s\<lparr>sent := sent s @
               [[\<lparr>key = Field_POWER E, cmdValue = Power_ON E\<rparr>,
                 (if newRotationSpeed value = 1
                    then \<lparr>key = Field_MODE E, cmdValue = Mode_SILENT E\<rparr>
                  else if newRotationSpeed value = 2
                    then \<lparr>key = Field_FAN_SPEED E, cmdValue = FanSpeed_WEAK E\<rparr>
                  else if newRotationSpeed value = 3
                    then \<lparr>key = Field_FAN_SPEED E, cmdValue = FanSpeed_MEDIUM E\<rparr>
                  else if newRotationSpeed value = 4
                    then \<lparr>key = Field_FAN_SPEED E, cmdValue = FanSpeed_STRONG E\<rparr>
                  else if newRotationSpeed value = 5
                    then \<lparr>key = Field_MODE E, cmdValue = Mode_TURBO E\<rparr>
                  else \<lparr>key = Field_MODE E, cmdValue = Mode_MY_PET E\<rparr>)]]\<rparr>,
           None))
   \<and> (getRotationSpeed E s = newRotationSpeed value \<longrightarrow> rotationSpeed_set E value s = (s, None))
   \<and> (mode (controlInfo s) = JStr (Mode_AUTO_DRIVING E) \<and> characteristicRefreshing s
        \<longrightarrow> rotationSpeed_set E value s = (s, None))"
proof (intro conjI impI)
  assume a: "\<not> on (controlInfo s)
      \<and> \<not> (mode (controlInfo s) = JStr (Mode_AUTO_DRIVING E) \<and> characteristicRefreshing s)
      \<and> 1 \<le> newRotationSpeed value \<and> newRotationSpeed value \<le> 6
      \<and> getRotationSpeed E s \<noteq> newRotationSpeed value"
  define l where "l = newRotationSpeed value"
  from a have "l = 1 \<or> l = 2 \<or> l = 3 \<or> l = 4 \<or> l = 5 \<or> l = 6"
    unfolding l_def by arith
  with a show "rotationSpeed_set E value s =
          (s\<lparr>sent := sent s @
               [[\<lparr>key = Field_POWER E, cmdValue = Power_ON E\<rparr>,
                 (if newRotationSpeed value = 1
                    then \<lparr>key = Field_MODE E, cmdValue = Mode_SILENT E\<rparr>
                  else if newRotationSpeed value = 2
                    then \<lparr>key = Field_FAN_SPEED E, cmdValue = FanSpeed_WEAK E\<rparr>
                  else if newRotationSpeed value = 3
                    then \<lparr>key = Field_FAN_SPEED E, cmdValue = FanSpeed_MEDIUM E\<rparr>
                  else if newRotationSpeed value = 4
                    then \<lparr>key = Field_FAN_SPEED E, cmdValue = FanSpeed_STRONG E\<rparr>
                  else if newRotationSpeed value = 5
                    then \<lparr>key = Field_MODE E, cmdValue = Mode_TURBO E\<rparr>
                  else \<lparr>key = Field_MODE E, cmdValue = Mode_MY_PET E\<rparr>)]]\<rparr>,
           None)"
    unfolding l_def [symmetric]
    by (auto simp: rotationSpeed_set_def Let_def executeSetPayloads_def
        createCommandFromRotationSpeed_def l_def [symmetric])
next
  assume "getRotationSpeed E s = newRotationSpeed value"
  then show "rotationSpeed_set E value s = (s, None)"
    by (simp add: rotationSpeed_set_def Let_def)
next
  assume "mode (controlInfo s) = JStr (Mode_AUTO_DRIVING E) \<and> characteristicRefreshing s"
  then show "rotationSpeed_set E value s = (s, None)"
    by (simp add: rotationSpeed_set_def Let_def)
qed

lemma getRotationSpeed_sample: "getRotationSpeed sampleEnumerations sampleAccessory = 0"
  by (simp add: getRotationSpeed_def sampleEnumerations_def sampleAccessory_def)

theorem rotationSpeed_set_off_witness:
  "rotationSpeed_set sampleEnumerations 50 (sampleAccessory\<lparr>controlInfo := (controlInfo sampleAccessory)\<lparr>mode := JStr ''2''\<rparr>\<rparr>) =
     ((sampleAccessory\<lparr>controlInfo := (controlInfo sampleAccessory)\<lparr>mode := JStr ''2''\<rparr>\<rparr>)
        \<lparr>sent := [[\<lparr>key = ''0001'', cmdValue = ''1''\<rparr>, \<lparr>key = ''0003'', cmdValue = ''2''\<rparr>]]\<rparr>, None)
   \<and> rotationSpeed_set sampleEnumerations 0 sampleAccessory = (sampleAccessory, None)
   \<and> rotationSpeed_set sampleEnumerations 50 (sampleAccessory\<lparr>characteristicRefreshing := True\<rparr>) =
       (sampleAccessory\<lparr>characteristicRefreshing := True\<rparr>, None)"
proof -
  let ?s = "sampleAccessory\<lparr>controlInfo := (controlInfo sampleAccessory)\<lparr>mode := JStr ''2''\<rparr>\<rparr>"
  let ?r = "sampleAccessory\<lparr>characteristicRefreshing := True\<rparr>"
  have old: "getRotationSpeed sampleEnumerations ?s = 0"
    by (simp add: getRotationSpeed_def sampleEnumerations_def sampleAccessory_def)
  note new0 = newRotationSpeed_0
  have pre: "\<not> on (controlInfo ?s)" "mode (controlInfo ?s) \<noteq> JStr (Mode_AUTO_DRIVING sampleEnumerations)"
    "sent ?s = []" "Field_POWER sampleEnumerations = ''0001''" "Power_ON sampleEnumerations = ''1''"
    "Field_FAN_SPEED sampleEnumerations = ''0003''" "FanSpeed_MEDIUM sampleEnumerations = ''2''"
    "mode (controlInfo ?r) = JStr (Mode_AUTO_DRIVING sampleEnumerations)"
    "characteristicRefreshing ?r"
    by (simp_all add: sampleAccessory_def sampleEnumerations_def)
  show ?thesis
    using rotationSpeed_set_off [of ?s sampleEnumerations 50]
      rotationSpeed_set_off [of sampleAccessory sampleEnumerations 0]
      rotationSpeed_set_off [of ?r sampleEnumerations 50]
      old new0 pre newRotationSpeed_50 getRotationSpeed_sample
    by auto
qed

theorem rotationSpeed_set_refreshing_counterexample:
  "\<not> on (controlInfo (sampleAccessory\<lparr>characteristicRefreshing := True\<rparr>))
   \<and> newRotationSpeed 50 = 3
   \<and> getRotationSpeed sampleEnumerations (sampleAccessory\<lparr>characteristicRefreshing := True\<rparr>) = 0
   \<and> sent (sampleAccessory\<lparr>characteristicRefreshing := True\<rparr>) = []
   \<and> sent (fst (rotationSpeed_set sampleEnumerations 50
                   (sampleAccessory\<lparr>characteristicRefreshing := True\<rparr>))) = []"
  using newRotationSpeed_50
  by (simp add: rotationSpeed_set_def getRotationSpeed_def sampleAccessory_def
      sampleEnumerations_def Let_def)

text \<open>
  Claim C5, as the code has it.  With the device off and the light off in the context,
  switching the light on sends one batch that holds the power command alone, and leaves
  the context as it was: no light command is sent.  With the device off, a brightness
  that rounds to a level above 0 other than the stored one sends one batch: power on,
  then the brightness command.
\<close>

theorem light_commands_device_off:
  "(\<not> on (controlInfo s) \<and> \<not> lightOn (lightbulbInfo (controlInfo s))
    \<longrightarrow> lightbulb_on_set E True s =
          (s\<lparr>sent := sent s @ [[\<lparr>key = Field_POWER E, cmdValue = Power_ON E\<rparr>]]\<rparr>, None))
   \<and> (\<not> on (controlInfo s) \<and> 0 < round (double (value / LIGHTBULB_BRIGHTNESS_UNIT))
       \<and> brightness (lightbulbInfo (controlInfo s))
           \<noteq> Num (Fin (of_int (round (double (value / LIGHTBULB_BRIGHTNESS_UNIT)))))
    \<longrightarrow> sent (fst (lightbulb_brightness_set E value s)) =
          sent s @ [[\<lparr>key = Field_POWER E, cmdValue = Power_ON E\<rparr>,
                     \<lparr>key = Field_LIGHT_BRIGHTNESS E,
                      cmdValue = toFixed0 (round (double (value / LIGHTBULB_BRIGHTNESS_UNIT)))\<rparr>]]
        \<and> brightness (lightbulbInfo (controlInfo (fst (lightbulb_brightness_set E value s))))
            = Num (Fin (of_int (round (double (value / LIGHTBULB_BRIGHTNESS_UNIT))))))"
  by (auto simp: lightbulb_on_set_def lightbulb_brightness_set_def Let_def
      executeSetPayload_def executeSetPayloads_def)

lemma round_2: "round (double (200 / 3 / LIGHTBULB_BRIGHTNESS_UNIT)) = 2"
  by (rule brightness_near) simp_all

lemma showInt_2: "showInt 2 = ''2''"
  by code_simp

lemma toFixed0_2: "toFixed0 2 = ''2''"
  by (simp add: toFixed0_def showInt_2)

theorem light_commands_device_off_witness:
  "lightbulb_on_set sampleEnumerations True sampleAccessory =
     (sampleAccessory\<lparr>sent := [[\<lparr>key = ''0001'', cmdValue = ''1''\<rparr>]]\<rparr>, None)
   \<and> sent (fst (lightbulb_brightness_set sampleEnumerations (200 / 3) sampleAccessory)) =
       [[\<lparr>key = ''0001'', cmdValue = ''1''\<rparr>, \<lparr>key = ''0031'', cmdValue = ''2''\<rparr>]]"
proof -
  have pre: "\<not> on (controlInfo sampleAccessory)"
    "\<not> lightOn (lightbulbInfo (controlInfo sampleAccessory))"
    "brightness (lightbulbInfo (controlInfo sampleAccessory)) = Num (Fin 0)"
    "sent sampleAccessory = []"
    "Field_POWER sampleEnumerations = ''0001''" "Power_ON sampleEnumerations = ''1''"
    "Field_LIGHT_BRIGHTNESS sampleEnumerations = ''0031''"
    by (simp_all add: sampleAccessory_def sampleEnumerations_def)
  show ?thesis
    using light_commands_device_off [of sampleAccessory sampleEnumerations "200 / 3"]
      pre round_2 toFixed0_2
    by simp
qed

theorem lightbulb_on_set_off_counterexample:
  "\<not> on (controlInfo sampleAccessory)
   \<and> sent sampleAccessory = []
   \<and> sent (fst (lightbulb_on_set sampleEnumerations True sampleAccessory)) =
       [[\<lparr>key = Field_POWER sampleEnumerations, cmdValue = Power_ON sampleEnumerations\<rparr>]]
   \<and> \<lparr>key = Field_LIGHT sampleEnumerations, cmdValue = Light_ON sampleEnumerations\<rparr>
       \<notin> set (concat (sent (fst (lightbulb_on_set sampleEnumerations True sampleAccessory))))
   \<and> lightOn (lightbulbInfo (controlInfo
        (fst (lightbulb_on_set sampleEnumerations True sampleAccessory)))) = False"
  by (simp add: lightbulb_on_set_def sampleAccessory_def sampleEnumerations_def Let_def
      executeSetPayload_def executeSetPayloads_def)

text \<open>
  Switching off a device that is on.  The handler sets the light off in the context and,
  when the brightness is there (not \<open>null\<close>, \<open>undefined\<close> or \<open>NaN\<close>), the brightness to
  0; it sends one batch that holds the one command power off.  When the brightness is not
  \<open>null\<close>, the callback it leaves for the light characteristics sends nothing.
\<close>

lemma active_set_off_state:
  assumes "on (controlInfo s)"
  shows "snd (active_set E False s) = None
       \<and> \<not> on (controlInfo (fst (active_set E False s)))
       \<and> \<not> lightOn (lightbulbInfo (controlInfo (fst (active_set E False s))))
       \<and> (isNotNull (nullish (brightness (lightbulbInfo (controlInfo s))))
            \<longrightarrow> brightness (lightbulbInfo (controlInfo (fst (active_set E False s)))) = Num (Fin 0))
       \<and> (\<not> isNotNull (nullish (brightness (lightbulbInfo (controlInfo s))))
            \<longrightarrow> brightness (lightbulbInfo (controlInfo (fst (active_set E False s))))
                = brightness (lightbulbInfo (controlInfo s)))
       \<and> sent (fst (active_set E False s)) =
           sent s @ [[\<lparr>key = Field_POWER E, cmdValue = Power_OFF E\<rparr>]]"
  using assms
  by (simp add: active_set_def Let_def executeSetPayload_def executeSetPayloads_def)

lemma active_set_timeout_not_null:
  assumes "on (controlInfo s)" and "brightness (lightbulbInfo (controlInfo s)) \<noteq> Null"
  shows "sent (active_set_timeout E (fst (active_set E False s))) =
         sent s @ [[\<lparr>key = Field_POWER E, cmdValue = Power_OFF E\<rparr>]]"
proof -
  note state = active_set_off_state [OF assms(1), of E]
  define s' where "s' = fst (active_set E False s)"
  have light: "\<not> lightOn (lightbulbInfo (controlInfo s'))"
    using state unfolding s'_def by blast
  have br: "brightness (lightbulbInfo (controlInfo s')) = Num (Fin 0)
          \<or> brightness (lightbulbInfo (controlInfo s')) = Undefined
          \<or> brightness (lightbulbInfo (controlInfo s')) = Num NaN"
  proof (cases "brightness (lightbulbInfo (controlInfo s))")
    case Undefined
    with state show ?thesis unfolding s'_def by (simp add: isNotNull_def)
  next
    case Null
    with assms(2) show ?thesis by simp
  next
    case (Num n)
    with state show ?thesis unfolding s'_def
      by (cases "n = NaN") (simp_all add: isNotNull_def isNaN_def)
  qed
  have s1: "setCharacteristic E On (HBool False) s' = s'\<lparr>pushed := pushed s' @ [(On, HBool False)]\<rparr>"
    using light by (simp add: lightbulb_on_set_def Let_def)
  have "sent (active_set_timeout E s') = sent s'"
    using br
    unfolding active_set_timeout_def Let_def s1
    by (auto simp: getLightbulbBrightnessPercentage_def setOptionalCharacteristic_def
        isNotNull_def isNaN_def lightbulb_brightness_set_number_def
        lightbulb_brightness_set_def Let_def binary64_0)
  with state show ?thesis unfolding s'_def by simp
qed

lemma active_set_off_example:
  "sent (fst (active_set sampleEnumerations False (setOn True sampleAccessory))) =
     [[\<lparr>key = ''0001'', cmdValue = ''0''\<rparr>]]
   \<and> sent (active_set_timeout sampleEnumerations
             (fst (active_set sampleEnumerations False (setOn True sampleAccessory)))) =
     [[\<lparr>key = ''0001'', cmdValue = ''0''\<rparr>]]
   \<and> brightness (lightbulbInfo (controlInfo
        (fst (active_set sampleEnumerations False (setOn True sampleAccessory))))) = Num (Fin 0)"
proof -
  have pre: "on (controlInfo (setOn True sampleAccessory))"
    "brightness (lightbulbInfo (controlInfo (setOn True sampleAccessory))) = Num (Fin 0)"
    "sent (setOn True sampleAccessory) = []"
    "Field_POWER sampleEnumerations = ''0001''" "Power_OFF sampleEnumerations = ''0''"
    by (simp_all add: sampleAccessory_def sampleEnumerations_def setOn_def)
  show ?thesis
    using active_set_off_state [of "setOn True sampleAccessory" sampleEnumerations]
      active_set_timeout_not_null [of "setOn True sampleAccessory" sampleEnumerations] pre
    by (simp add: isNotNull_def isNaN_def)
qed

section \<open>Fan level and percentage\<close>

text \<open>
  Claim C7.  For a percentage from 0 to 100 the level is from 0 to 6, and the percentage of
  that level decodes to the same level: a second pass through level and percentage gives
  the percentage of the first pass (so they are within one step \<open>100/6\<close> of each other).
  The conversions are those of the code, with the rounding of its double arithmetic.
\<close>

theorem percentage_level_roundtrip:
  assumes "0 \<le> p" and "p \<le> 100"
  shows "newRotationSpeed (percentageOfLevel (newRotationSpeed p)) = newRotationSpeed p
       \<and> percentageOfLevel (newRotationSpeed (percentageOfLevel (newRotationSpeed p)))
           = percentageOfLevel (newRotationSpeed p)
       \<and> \<bar>percentageOfLevel (newRotationSpeed (percentageOfLevel (newRotationSpeed p)))
           - percentageOfLevel (newRotationSpeed p)\<bar> \<le> ROTATION_SPEED_UNIT
       \<and> 0 \<le> newRotationSpeed p \<and> newRotationSpeed p \<le> 6"
proof -
  have r: "0 \<le> newRotationSpeed p" "newRotationSpeed p \<le> 6"
    using newRotationSpeed_range [OF assms] by simp_all
  have "newRotationSpeed (percentageOfLevel (newRotationSpeed p)) = newRotationSpeed p"
    by (rule newRotationSpeed_near [OF r percentageOfLevel_near [OF r]])
  moreover have "0 \<le> ROTATION_SPEED_UNIT"
    using ROTATION_SPEED_UNIT_bounds(2) by simp
  ultimately show ?thesis using r by simp
qed

theorem percentage_level_roundtrip_witness:
  "newRotationSpeed 50 = 3
   \<and> newRotationSpeed (percentageOfLevel (newRotationSpeed 50)) = 3
   \<and> percentageOfLevel (newRotationSpeed (percentageOfLevel (newRotationSpeed 50)))
       = percentageOfLevel 3"
  using percentage_level_roundtrip [of 50] newRotationSpeed_50
  by simp

section \<open>Session negotiation\<close>

lemma authenticate_final:
  assumes "js_includes ''redirect_bridge.html'' (path final)"
  shows "authenticate request s (final # script) =
         ([\<lparr>post_session = session s, post_form = request, post_cookie = cookies s\<rparr>],
          extractCode (path final))"
  using assms by (simp add: Let_def)

lemma authenticate_retry:
  assumes "\<not> js_includes ''redirect_bridge.html'' (path r)" and "parseSessionCode r = Some code"
  shows "authenticate request s (r # script) =
         (\<lparr>post_session = session s, post_form = request, post_cookie = cookies s\<rparr>
            # fst (authenticate PasswordUpdateRequest \<lparr>session = code, cookies = cookies s\<rparr> script),
          snd (authenticate PasswordUpdateRequest \<lparr>session = code, cookies = cookies s\<rparr> script))"
  using assms by (simp add: Let_def split: prod.splits)

declare authenticate.simps [simp del]

lemma authenticate_pages:
  assumes "\<forall>r \<in> set pages.
             \<not> js_includes ''redirect_bridge.html'' (path r) \<and> parseSessionCode r \<noteq> None"
    and "js_includes ''redirect_bridge.html'' (path final)"
  shows "authenticate request s (pages @ final # script) =
         (\<lparr>post_session = session s, post_form = request, post_cookie = cookies s\<rparr>
            # map (\<lambda>r. \<lparr>post_session = the (parseSessionCode r),
                         post_form = PasswordUpdateRequest,
                         post_cookie = cookies s\<rparr>) pages,
          extractCode (path final))"
  using assms
proof (induction pages arbitrary: request s)
  case Nil
  then show ?case by (simp add: authenticate_final)
next
  case (Cons r pages)
  from Cons.prems obtain code where code: "parseSessionCode r = Some code"
    and marker: "\<not> js_includes ''redirect_bridge.html'' (path r)"
    by auto
  let ?s = "\<lparr>session = code, cookies = cookies s\<rparr>"
  have rest: "\<forall>r \<in> set pages.
      \<not> js_includes ''redirect_bridge.html'' (path r) \<and> parseSessionCode r \<noteq> None"
    using Cons.prems by simp
  note IH = Cons.IH [OF rest Cons.prems(2), of PasswordUpdateRequest ?s]
  show ?case
    using IH code
    by (simp add: authenticate_retry [OF marker code])
qed

text \<open>
  Claim C1, as the code has it.  A response whose path lacks the redirect marker is
  answered with the form that skips the password change, posted with the session code
  parsed from that response and with the cookie of the first POST, and this is repeated
  for as many such responses as the vendor gives: after any number of them, a response
  with the marker yields the value of its \<open>code\<close> parameter.  The POSTs made are the
  first one, with the given form, session code and cookie, and one retry per response
  that lacks the marker, in the order of the responses.  There is no bound and no
  protocol error; a response that lacks the marker and has no form action to parse
  throws a \<open>TypeError\<close>.
\<close>

theorem authenticate_retries_every_page:
  "((\<forall>r \<in> set pages.
        \<not> js_includes ''redirect_bridge.html'' (path r) \<and> parseSessionCode r \<noteq> None)
      \<and> js_includes ''redirect_bridge.html'' (path final)
    \<longrightarrow> authenticate request s (pages @ final # script) =
          (\<lparr>post_session = session s, post_form = request, post_cookie = cookies s\<rparr>
             # map (\<lambda>r. \<lparr>post_session = the (parseSessionCode r),
                          post_form = PasswordUpdateRequest,
                          post_cookie = cookies s\<rparr>) pages,
           extractCode (path final)))
   \<and> (\<not> js_includes ''redirect_bridge.html'' (path r) \<and> parseSessionCode r = None
    \<longrightarrow> authenticate request s (r # script) =
          ([\<lparr>post_session = session s, post_form = request, post_cookie = cookies s\<rparr>],
           Inl TypeError))"
  using authenticate_pages [of pages final request s script]
  by (simp add: Let_def authenticate.simps)

lemma sample_pages:
  "\<not> js_includes ''redirect_bridge.html'' (path passwordPage)"
  "parseSessionCode passwordPage = Some ''abc&execution=e1''"
  "js_includes ''redirect_bridge.html'' (path finalRedirect)"
  "extractCode (path finalRedirect) = Inr (Some ''XYZ'')"
  by code_simp+

theorem authenticate_retries_every_page_witness:
  "authenticate (LogInRequest ''user'' ''secret'') \<lparr>session = ''s0'', cookies = ''c''\<rparr>
     ([passwordPage, passwordPage] @ finalRedirect # [passwordPage]) =
     ([\<lparr>post_session = ''s0'', post_form = LogInRequest ''user'' ''secret'', post_cookie = ''c''\<rparr>,
       \<lparr>post_session = ''abc&execution=e1'', post_form = PasswordUpdateRequest, post_cookie = ''c''\<rparr>,
       \<lparr>post_session = ''abc&execution=e1'', post_form = PasswordUpdateRequest, post_cookie = ''c''\<rparr>],
      Inr (Some ''XYZ''))
   \<and> authenticate (LogInRequest ''user'' ''secret'') \<lparr>session = ''s0'', cookies = ''c''\<rparr>
       (\<lparr>path = ''/login'', data = ''<html>''\<rparr> # [passwordPage]) =
     ([\<lparr>post_session = ''s0'', post_form = LogInRequest ''user'' ''secret'', post_cookie = ''c''\<rparr>],
      Inl TypeError)"
proof -
  have bad: "\<not> js_includes ''redirect_bridge.html'' (path \<lparr>path = ''/login'', data = ''<html>''\<rparr>)"
    "parseSessionCode \<lparr>path = ''/login'', data = ''<html>''\<rparr> = None"
    by code_simp+
  show ?thesis
    using authenticate_retries_every_page
      [of "[passwordPage, passwordPage]" finalRedirect
          "LogInRequest ''user'' ''secret''" "\<lparr>session = ''s0'', cookies = ''c''\<rparr>"
          "[passwordPage]" "\<lparr>path = ''/login'', data = ''<html>''\<rparr>"]
      sample_pages bad
    by simp
qed

theorem authenticate_three_pages_counterexample:
  "\<not> js_includes ''redirect_bridge.html'' (path passwordPage)
   \<and> authenticate (LogInRequest ''user'' ''secret'') \<lparr>session = ''s0'', cookies = ''c''\<rparr>
       [passwordPage, passwordPage, passwordPage, finalRedirect] =
     ([\<lparr>post_session = ''s0'', post_form = LogInRequest ''user'' ''secret'', post_cookie = ''c''\<rparr>,
       \<lparr>post_session = ''abc&execution=e1'', post_form = PasswordUpdateRequest, post_cookie = ''c''\<rparr>,
       \<lparr>post_session = ''abc&execution=e1'', post_form = PasswordUpdateRequest, post_cookie = ''c''\<rparr>,
       \<lparr>post_session = ''abc&execution=e1'', post_form = PasswordUpdateRequest, post_cookie = ''c''\<rparr>],
      Inr (Some ''XYZ''))"
  using sample_pages
  by (simp add: Let_def authenticate.simps)

section \<open>Token expiry and refresh\<close>

declare executeIoCarePayload.simps [simp del]

lemma executeIoCarePayload_refresh_endpoint:
  "executeIoCarePayload env (IoCareEndpoint_REFRESH_TOKEN env) m body (Some token) =
     (token, [buildRequest env (IoCareEndpoint_REFRESH_TOKEN env) m body token],
      unwrap (vendor env (buildRequest env (IoCareEndpoint_REFRESH_TOKEN env) m body token)))"
  by (subst executeIoCarePayload.simps) (simp add: Let_def)

lemma req_urlKey_buildRequest [simp]: "req_urlKey (buildRequest env k m body t) = k"
  by (simp add: buildRequest_def split: prod.splits)

lemma executeIoCarePayload_fresh:
  assumes "accessToken token = JStr s" and "s \<noteq> []"
    and "urlKey \<noteq> IoCareEndpoint_REFRESH_TOKEN env"
    and "splitOn CHR ''.'' s = h # segment # rest"
    and "decodePayload env segment = Inr decoded" and "\<not> isNullish decoded"
    and "\<not> js_less env (js_get decoded ''exp'') (double (nowMillis env / 1000))"
  shows "executeIoCarePayload env urlKey m body (Some token) =
     (token, [buildRequest env urlKey m body token],
      unwrap (vendor env (buildRequest env urlKey m body token)))"
  using assms by (subst executeIoCarePayload.simps) (simp add: Let_def)

lemma executeIoCarePayload_expired:
  assumes "accessToken token = JStr s" and "s \<noteq> []"
    and "urlKey \<noteq> IoCareEndpoint_REFRESH_TOKEN env"
    and "splitOn CHR ''.'' s = h # segment # rest"
    and "decodePayload env segment = Inr decoded" and "\<not> isNullish decoded"
    and "js_less env (js_get decoded ''exp'') (double (nowMillis env / 1000))"
  shows "executeIoCarePayload env urlKey m body (Some token) =
     (let refreshRequest = buildRequest env (IoCareEndpoint_REFRESH_TOKEN env) POST
                             (JObj [(''refreshToken'', refreshToken token)]) token
      in case unwrap (vendor env refreshRequest) of
           Inl e \<Rightarrow> (token, [refreshRequest], Inl TypeError)
         | Inr response \<Rightarrow>
             if isNullish response \<or> isNullish (js_get response ''data'')
             then (token, [refreshRequest], Inl TypeError)
             else
               (\<lparr>accessToken = js_get (js_get response ''data'') ''accessToken'',
                 refreshToken = js_get (js_get response ''data'') ''refreshToken''\<rparr>,
                [refreshRequest,
                 buildRequest env urlKey m body
                   \<lparr>accessToken = js_get (js_get response ''data'') ''accessToken'',
                    refreshToken = js_get (js_get response ''data'') ''refreshToken''\<rparr>],
                unwrap (vendor env (buildRequest env urlKey m body
                   \<lparr>accessToken = js_get (js_get response ''data'') ''accessToken'',
                    refreshToken = js_get (js_get response ''data'') ''refreshToken''\<rparr>))))"
  using assms
  by (subst executeIoCarePayload.simps)
    (simp add: Let_def executeIoCarePayload_refresh_endpoint split: sum.splits)

text \<open>
  Claim C3.  For a call with a token whose payload decodes to an object with a numeric
  \<open>exp\<close>, on any endpoint but the refresh endpoint: when \<open>exp\<close> is before the current
  time, the first request sent is the refresh, it is the only refresh request, and when
  its response carries a \<open>data\<close> object both tokens are replaced by those of \<open>data\<close>
  and the original request follows, with the new access token; when \<open>exp\<close> is not before
  the current time, the original request is the only request, and the tokens stay.  A
  call on the refresh endpoint itself sends that one request, whatever the token.
\<close>

theorem refresh_before_call:
  assumes "accessToken token = JStr s" and "s \<noteq> []"
    and "urlKey \<noteq> IoCareEndpoint_REFRESH_TOKEN env"
    and "splitOn CHR ''.'' s = h # segment # rest"
    and "decodePayload env segment = Inr decoded" and "\<not> isNullish decoded"
    and "js_get decoded ''exp'' = JNum (Fin e)"
  shows "(e < double (nowMillis env / 1000) \<longrightarrow>
           (case executeIoCarePayload env urlKey m body (Some token) of
              (token', calls, result) \<Rightarrow>
                hd calls = buildRequest env (IoCareEndpoint_REFRESH_TOKEN env) POST
                             (JObj [(''refreshToken'', refreshToken token)]) token
              \<and> length (refreshCalls env calls) = 1
              \<and> (\<forall>response.
                    unwrap (vendor env (hd calls)) = Inr response
                    \<and> \<not> isNullish response \<and> \<not> isNullish (js_get response ''data'')
                  \<longrightarrow> token' = \<lparr>accessToken = js_get (js_get response ''data'') ''accessToken'',
                                refreshToken = js_get (js_get response ''data'') ''refreshToken''\<rparr>
                    \<and> calls = [hd calls, buildRequest env urlKey m body token']
                    \<and> result = unwrap (vendor env (buildRequest env urlKey m body token')))))
       \<and> (double (nowMillis env / 1000) \<le> e \<longrightarrow>
            executeIoCarePayload env urlKey m body (Some token) =
              (token, [buildRequest env urlKey m body token],
               unwrap (vendor env (buildRequest env urlKey m body token)))
          \<and> refreshCalls env (fst (snd (executeIoCarePayload env urlKey m body (Some token)))) = [])
       \<and> executeIoCarePayload env (IoCareEndpoint_REFRESH_TOKEN env) m body (Some token) =
            (token, [buildRequest env (IoCareEndpoint_REFRESH_TOKEN env) m body token],
             unwrap (vendor env (buildRequest env (IoCareEndpoint_REFRESH_TOKEN env) m body token)))"
proof (intro conjI impI)
  assume past: "e < double (nowMillis env / 1000)"
  then have "js_less env (js_get decoded ''exp'') (double (nowMillis env / 1000))"
    using assms(7) by (simp add: js_less_def)
  note eq = executeIoCarePayload_expired [OF assms(1-6) this, of m body]
  show "case executeIoCarePayload env urlKey m body (Some token) of
              (token', calls, result) \<Rightarrow>
                hd calls = buildRequest env (IoCareEndpoint_REFRESH_TOKEN env) POST
                             (JObj [(''refreshToken'', refreshToken token)]) token
              \<and> length (refreshCalls env calls) = 1
              \<and> (\<forall>response.
                    unwrap (vendor env (hd calls)) = Inr response
                    \<and> \<not> isNullish response \<and> \<not> isNullish (js_get response ''data'')
                  \<longrightarrow> token' = \<lparr>accessToken = js_get (js_get response ''data'') ''accessToken'',
                                refreshToken = js_get (js_get response ''data'') ''refreshToken''\<rparr>
                    \<and> calls = [hd calls, buildRequest env urlKey m body token']
                    \<and> result = unwrap (vendor env (buildRequest env urlKey m body token')))"
    unfolding eq Let_def using assms(3)
    by (auto simp: refreshCalls_def split: sum.splits)
next
  assume future: "double (nowMillis env / 1000) \<le> e"
  then have "\<not> js_less env (js_get decoded ''exp'') (double (nowMillis env / 1000))"
    using assms(7) by (simp add: js_less_def)
  note eq = executeIoCarePayload_fresh [OF assms(1-6) this, of m body]
  show "executeIoCarePayload env urlKey m body (Some token) =
              (token, [buildRequest env urlKey m body token],
               unwrap (vendor env (buildRequest env urlKey m body token)))"
    by (rule eq)
  show "refreshCalls env (fst (snd (executeIoCarePayload env urlKey m body (Some token)))) = []"
    unfolding eq using assms(3) by (simp add: refreshCalls_def)
next
  show "executeIoCarePayload env (IoCareEndpoint_REFRESH_TOKEN env) m body (Some token) =
            (token, [buildRequest env (IoCareEndpoint_REFRESH_TOKEN env) m body token],
             unwrap (vendor env (buildRequest env (IoCareEndpoint_REFRESH_TOKEN env) m body token)))"
    by (rule executeIoCarePayload_refresh_endpoint)
qed

lemma sample_tokens:
  "splitOn CHR ''.'' ''h.1699999999.s'' = ''h'' # ''1699999999'' # [''s'']"
  "splitOn CHR ''.'' ''h.1700003600.s'' = ''h'' # ''1700003600'' # [''s'']"
  "decodePayload sampleGateway ''1699999999'' = Inr (JObj [(''exp'', JNum (Fin 1699999999))])"
  "decodePayload sampleGateway ''1700003600'' = Inr (JObj [(''exp'', JNum (Fin 1700003600))])"
  by (simp_all add: sampleGateway_def parseInt_string_def splitSign_def char_simps
      digitsValue_def digitValue_def binary64_samples)

theorem refresh_before_call_witness:
  "fst (executeIoCarePayload sampleGateway ''/com/user-devices::CWIG0304'' GET (JObj [])
          (Some \<lparr>accessToken = JStr ''h.1699999999.s'', refreshToken = JStr ''r1''\<rparr>))
     = \<lparr>accessToken = JStr ''h.1700003600.s'', refreshToken = JStr ''r2''\<rparr>
   \<and> map req_urlKey
        (fst (snd (executeIoCarePayload sampleGateway ''/com/user-devices::CWIG0304'' GET (JObj [])
          (Some \<lparr>accessToken = JStr ''h.1699999999.s'', refreshToken = JStr ''r1''\<rparr>))))
     = [''/com/refresh-token::CWIL0100'', ''/com/user-devices::CWIG0304'']
   \<and> map req_urlKey
        (fst (snd (executeIoCarePayload sampleGateway ''/com/user-devices::CWIG0304'' GET (JObj [])
          (Some \<lparr>accessToken = JStr ''h.1700003600.s'', refreshToken = JStr ''r1''\<rparr>))))
     = [''/com/user-devices::CWIG0304'']"
proof -
  let ?k = "''/com/user-devices::CWIG0304''"
  let ?old = "\<lparr>accessToken = JStr ''h.1699999999.s'', refreshToken = JStr ''r1''\<rparr>"
  let ?new = "\<lparr>accessToken = JStr ''h.1700003600.s'', refreshToken = JStr ''r1''\<rparr>"
  let ?refreshRequest = "buildRequest sampleGateway (IoCareEndpoint_REFRESH_TOKEN sampleGateway)
      POST (JObj [(''refreshToken'', refreshToken ?old)]) ?old"
  let ?response = "JObj [(''data'', JObj [(''accessToken'', JStr ''h.1700003600.s''),
      (''refreshToken'', JStr ''r2'')])]"
  have key: "?k \<noteq> IoCareEndpoint_REFRESH_TOKEN sampleGateway"
    and refresh: "IoCareEndpoint_REFRESH_TOKEN sampleGateway = ''/com/refresh-token::CWIL0100''"
    and now: "nowMillis sampleGateway / 1000 = 1700000000"
    by (simp_all add: sampleGateway_def)
  have "\<bar>double 1700000000 - 1700000000\<bar> \<le> (1700000000 :: rat) / 2 ^ 53"
    by (rule double_near) simp
  moreover have "(1700000000 :: rat) / 2 ^ 53 \<le> 1 / 1000" by simp
  ultimately have clock: "\<bar>double 1700000000 - 1700000000\<bar> \<le> 1 / 1000" by linarith
  have obj: "\<not> isNullish (JObj [(''exp'', JNum (Fin 1699999999))])"
    "\<not> isNullish (JObj [(''exp'', JNum (Fin 1700003600))])"
    "js_get (JObj [(''exp'', JNum (Fin 1699999999))]) ''exp'' = JNum (Fin 1699999999)"
    "js_get (JObj [(''exp'', JNum (Fin 1700003600))]) ''exp'' = JNum (Fin 1700003600)"
    by (simp_all add: isNullish_def js_get_def)
  have response: "unwrap (vendor sampleGateway ?refreshRequest) = Inr ?response"
    "\<not> isNullish ?response" "\<not> isNullish (js_get ?response ''data'')"
    by (simp_all add: sampleGateway_def unwrap_def isNullish_def js_get_def)
  have fields: "js_get (js_get ?response ''data'') ''accessToken'' = JStr ''h.1700003600.s''"
    "js_get (js_get ?response ''data'') ''refreshToken'' = JStr ''r2''"
    by (simp_all add: js_get_def)
  obtain token' calls result where run:
    "executeIoCarePayload sampleGateway ?k GET (JObj []) (Some ?old) = (token', calls, result)"
    by (rule prod_cases3)
  have tok: "accessToken ?old = JStr ''h.1699999999.s''" "''h.1699999999.s'' \<noteq> []"
    "accessToken ?new = JStr ''h.1700003600.s''" "''h.1700003600.s'' \<noteq> []"
    by simp_all
  have past: "(1699999999 :: rat) < double (nowMillis sampleGateway / 1000)"
    and future: "double (nowMillis sampleGateway / 1000) \<le> (1700003600 :: rat)"
    unfolding now using clock by linarith+
  note old = refresh_before_call
    [OF tok(1) tok(2) key sample_tokens(1) sample_tokens(3) obj(1) obj(3), of GET "JObj []"]
  note expired = old [THEN conjunct1, THEN mp, OF past, unfolded run prod.case]
  note first = expired [THEN conjunct1]
  have "unwrap (vendor sampleGateway (hd calls)) = Inr ?response
      \<and> \<not> isNullish ?response \<and> \<not> isNullish (js_get ?response ''data'')"
    unfolding first by (intro conjI response)
  note replaced = expired [THEN conjunct2, THEN conjunct2, THEN spec, THEN mp, OF this,
      unfolded fields]
  have token: "token' = \<lparr>accessToken = JStr ''h.1700003600.s'', refreshToken = JStr ''r2''\<rparr>"
    by (rule replaced [THEN conjunct1])
  have "map req_urlKey calls = map req_urlKey [hd calls, buildRequest sampleGateway ?k GET (JObj []) token']"
    using replaced [THEN conjunct2, THEN conjunct1] by (rule arg_cong)
  then have urls: "map req_urlKey calls = [''/com/refresh-token::CWIL0100'', ?k]"
    unfolding first by (simp add: refresh)
  note new = refresh_before_call
    [OF tok(3) tok(4) key sample_tokens(2) sample_tokens(4) obj(2) obj(4), of GET "JObj []"]
  note fresh = new [THEN conjunct2, THEN conjunct1, THEN mp, OF future, THEN conjunct1]
  show ?thesis
    unfolding run fresh using token urls by simp
qed

section \<open>Refresh of a connected device\<close>

text \<open>
  What the calls of the callback of \<open>refresh\<close> do.  A characteristic with no SET handler
  only takes the value.  \<open>Active\<close> set to the power state of the context,
  \<open>TargetAirPurifierState\<close> set to the strategy of the context, \<open>RotationSpeed\<close> set to
  the percentage of a level from 0 to 6 of the context, and \<open>Brightness\<close> set to the
  percentage of a brightness 0 find nothing to change.  \<open>On\<close> is set to the conjunction of
  the power state and the light state: when the device is off and the light on in the
  context, its handler switches the light off in the context and sends the command.
\<close>

lemma setCharacteristic_plain:
  assumes "c \<notin> {Active, TargetAirPurifierState, RotationSpeed, On, Brightness}"
  shows "setCharacteristic E c v s = s\<lparr>pushed := pushed s @ [(c, v)]\<rparr>"
  using assms by (cases c; cases v) simp_all

lemma setCharacteristic_Active_same:
  assumes "on (controlInfo s) = b"
  shows "setCharacteristic E Active (HBool b) s = s\<lparr>pushed := pushed s @ [(Active, HBool b)]\<rparr>"
  using assms by (auto simp: active_set_def Let_def)

lemma setCharacteristic_Target_same:
  "setCharacteristic E TargetAirPurifierState
     (HNum (Fin (of_nat (getPurifierDrivingStrategy E s)))) s =
     s\<lparr>pushed := pushed s @
          [(TargetAirPurifierState, HNum (Fin (of_nat (getPurifierDrivingStrategy E s))))]\<rparr>"
  by (simp add: targetAirPurifierState_set_def getPurifierDrivingStrategy_def Let_def
      TargetAirPurifierState_AUTO_def TargetAirPurifierState_MANUAL_def)

lemma newRotationSpeed_percentageOfLevel:
  assumes "0 \<le> l" and "l \<le> 6"
  shows "newRotationSpeed (percentageOfLevel l) = l"
  using assms by (intro newRotationSpeed_near percentageOfLevel_near) simp_all

lemma getRotationSpeed_pushed:
  "getRotationSpeed E (s\<lparr>pushed := p\<rparr>) = getRotationSpeed E s"
  by (simp add: getRotationSpeed_def)

lemma setCharacteristic_RotationSpeed_same:
  assumes "0 \<le> getRotationSpeed E s" and "getRotationSpeed E s \<le> 6"
  shows "setCharacteristic E RotationSpeed (HNum (Fin (getRotationSpeedPercentage E s))) s =
     s\<lparr>pushed := pushed s @ [(RotationSpeed, HNum (Fin (getRotationSpeedPercentage E s)))]\<rparr>"
  using newRotationSpeed_percentageOfLevel [OF assms]
  by (simp add: rotationSpeed_set_def Let_def getRotationSpeed_pushed
      getRotationSpeedPercentage_def)

lemma setCharacteristic_On:
  "setCharacteristic E On (HBool b) s =
     (if lightOn (lightbulbInfo (controlInfo s)) = b then s\<lparr>pushed := pushed s @ [(On, HBool b)]\<rparr>
      else if \<not> on (controlInfo s) \<and> b then
        s\<lparr>pushed := pushed s @ [(On, HBool b)],
          sent := sent s @ [[\<lparr>key = Field_POWER E, cmdValue = Power_ON E\<rparr>]]\<rparr>
      else
        s\<lparr>pushed := pushed s @ [(On, HBool b)],
          controlInfo := (controlInfo s)\<lparr>lightbulbInfo :=
                            (lightbulbInfo (controlInfo s))\<lparr>lightOn := b\<rparr>\<rparr>,
          sent := sent s @ [[\<lparr>key = Field_LIGHT E,
                              cmdValue = (if b then Light_ON E else Light_OFF E)\<rparr>]]\<rparr>)"
  by (simp add: lightbulb_on_set_def Let_def executeSetPayload_def executeSetPayloads_def)

lemma setOptionalCharacteristic_Brightness_same:
  assumes "brightness (lightbulbInfo (controlInfo s)) = Num (Fin 0)"
  shows "setOptionalCharacteristic E Brightness (getLightbulbBrightnessPercentage s) s =
     s\<lparr>pushed := pushed s @ [(Brightness, HNum (Fin 0))]\<rparr>"
  using assms
  by (simp add: setOptionalCharacteristic_def getLightbulbBrightnessPercentage_def
      isNotNull_def isNaN_def binary64_0 lightbulb_brightness_set_number_def
      lightbulb_brightness_set_def Let_def)

lemma setOptionalCharacteristic_plain:
  assumes "c \<notin> {Active, TargetAirPurifierState, RotationSpeed, On, Brightness}"
  shows "setOptionalCharacteristic E c (Some (Fin q)) s = s\<lparr>pushed := pushed s @ [(c, HNum (Fin q))]\<rparr>"
  using assms
  by (simp add: setCharacteristic_plain setOptionalCharacteristic_def isNotNull_def isNaN_def
      del: setCharacteristic.simps)

declare setCharacteristic.simps [simp del]

text \<open>
  A poll that finds the device off and the light on (the vendor's value \<open>0\<close>): the twelve
  characteristics are set, and the handler of \<open>On\<close> sends the command light off.
\<close>

lemma sample_endpoints:
  "EndpointPath_DEVICES_CONTROL sampleEnumerations = ''control''"
  "EndpointPath_AIR_DEVICES_HOME sampleEnumerations = ''home''"
  "EndpointPath_AIR_DEVICES_FILTER_INFO sampleEnumerations = ''filter''"
  by (simp_all add: sampleEnumerations_def)

lemma sample_poll:
  "getControlInfo sampleEnumerations
     (JObj [(''controlStatus'', JObj [(''0001'', JStr ''0''), (''0007'', JStr ''0'')])]) =
     \<lparr>on = False, lightbulbInfo = \<lparr>lightOn = True, brightness = Num (Fin 0)\<rparr>,
      airQuality = NaN, mode = JUndefined, fanSpeed = JUndefined\<rparr>"
  "getIndoorAirQuality JUndefined =
     \<lparr>humidity = Some (Fin 0), pm25Density = Some (Fin 0), pm10Density = Some (Fin 0),
      temperature = Some (Fin 0), vocDensity = Some (Fin 0)\<rparr>"
  "getFilterInfos JUndefined = Inr []"
  by (simp_all add: getControlInfo_def getIndoorAirQuality_def getFilterInfos_def js_get_def
      sampleEnumerations_def parseNullableInt_def js_parseInt_def parseInt_string_def
      splitSign_def char_simps)

lemma refresh_light_example:
  "(case refresh sampleEnumerations (\<lambda>r s. Inr s) sampleRefreshCharacteristics
      [''control'' \<mapsto> JObj [(''controlStatus'',
                              JObj [(''0001'', JStr ''0''), (''0007'', JStr ''0'')])]]
      sampleAccessory of
      Inl e \<Rightarrow> False
    | Inr s' \<Rightarrow> \<not> on (controlInfo s') \<and> \<not> lightOn (lightbulbInfo (controlInfo s'))
               \<and> length (pushed s') = 12
               \<and> sent s' = [[\<lparr>key = ''0007'', cmdValue = ''3''\<rparr>]])"
proof -
  define s0 where "s0 = sampleAccessory
      \<lparr>filterInfos := [],
        indoorAirQuality := \<lparr>humidity = Some (Fin 0), pm25Density = Some (Fin 0),
           pm10Density = Some (Fin 0), temperature = Some (Fin 0), vocDensity = Some (Fin 0)\<rparr>,
        controlInfo := \<lparr>on = False, lightbulbInfo = \<lparr>lightOn = True, brightness = Num (Fin 0)\<rparr>,
           airQuality = NaN, mode = JUndefined, fanSpeed = JUndefined\<rparr>,
        characteristicRefreshing := True\<rparr>"
  have level: "getRotationSpeed sampleEnumerations s = 0"
    if "fanSpeed (controlInfo s) = JUndefined" for s
    using that by (simp add: getRotationSpeed_def sampleEnumerations_def)
  have facts: "\<not> on (controlInfo s0)" "lightOn (lightbulbInfo (controlInfo s0))"
    "fanSpeed (controlInfo s0) = JUndefined"
    "brightness (lightbulbInfo (controlInfo s0)) = Num (Fin 0)"
    "sent s0 = []" "pushed s0 = []"
    "indoorAirQuality s0 = \<lparr>humidity = Some (Fin 0), pm25Density = Some (Fin 0),
           pm10Density = Some (Fin 0), temperature = Some (Fin 0), vocDensity = Some (Fin 0)\<rparr>"
    by (simp_all add: s0_def sampleAccessory_def)
  have cb: "\<not> on (controlInfo (refreshCallback sampleEnumerations s0))
      \<and> \<not> lightOn (lightbulbInfo (controlInfo (refreshCallback sampleEnumerations s0)))
      \<and> length (pushed (refreshCallback sampleEnumerations s0)) = 12
      \<and> sent (refreshCallback sampleEnumerations s0) =
          [[\<lparr>key = Field_LIGHT sampleEnumerations, cmdValue = Light_OFF sampleEnumerations\<rparr>]]"
    unfolding refreshCallback_def
    using facts
    by (simp add: setCharacteristic_Active_same setCharacteristic_Target_same
        setCharacteristic_RotationSpeed_same level setCharacteristic_On
        setOptionalCharacteristic_Brightness_same setOptionalCharacteristic_plain
        setCharacteristic_plain)
  have "refresh sampleEnumerations (\<lambda>r s. Inr s) sampleRefreshCharacteristics
      [''control'' \<mapsto> JObj [(''controlStatus'',
                              JObj [(''0001'', JStr ''0''), (''0007'', JStr ''0'')])]]
      sampleAccessory = Inr ((refreshCallback sampleEnumerations s0)\<lparr>characteristicRefreshing := False\<rparr>)"
    by (simp add: refresh_def sampleRefreshCharacteristics_def response_of_def sample_poll
        s0_def sampleAccessory_def sample_endpoints)
  with cb show ?thesis by (simp add: sampleEnumerations_def)
qed
section \<open>The poll cycle regroups by position\<close>

lemma promise_all_map_Fulfilled: "promise_all (map Fulfilled rs) = Some rs"
  by (induction rs) simp_all

lemma refresh_loop_positions:
  assumes "\<forall>a \<in> set accessories. \<forall>z. \<not> refreshThrows m a z"
  shows "refresh_loop m accessories responses =
         map (\<lambda>i. (accessories ! i,
                    zipEndpointResponses m (accessories ! i)
                      (take (length (endpoints (accessories ! i)))
                         (drop (sum_list (map (\<lambda>a. length (endpoints a)) (take i accessories)))
                            responses))))
             [0..<length accessories]"
  using assms
proof (induction accessories arbitrary: responses)
  case Nil
  then show ?case by simp
next
  case (Cons a accessories)
  have no_throw: "\<forall>b \<in> set accessories. \<forall>z. \<not> refreshThrows m b z"
    using Cons.prems by simp
  have shift: "[0..<length (a # accessories)] = 0 # map Suc [0..<length accessories]"
    by (simp add: upt_conv_Cons map_Suc_upt del: upt_Suc)
  show ?case
    unfolding shift
    using Cons.prems Cons.IH [OF no_throw, of "drop (length (endpoints a)) responses"]
    by (simp add: Let_def o_def add.commute)
qed

lemma refresh_loop_own_responses:
  assumes "\<forall>a \<in> set accessories. \<not> refreshThrows m a (zipEndpointResponses m a (g a))"
    and "\<forall>a \<in> set accessories. length (g a) = length (endpoints a)"
  shows "refresh_loop m accessories (concat (map g accessories) @ extra) =
         map (\<lambda>a. (a, zipEndpointResponses m a (g a))) accessories"
  using assms
  by (induction accessories) (simp_all add: Let_def)

lemma queues_Fulfilled:
  assumes "\<forall>a \<in> set accessories. \<forall>e \<in> set (endpoints a).
             retrieveDeviceState m a e = Fulfilled (v a e)"
  shows "queues m accessories =
         map Fulfilled (concat (map (\<lambda>a. map (v a) (endpoints a)) accessories))"
  using assms
  by (induction accessories) (simp_all add: queues_def)

text \<open>
  Claim C6.  A poll cycle regroups the responses per accessory by position.  When every
  promise is fulfilled and no \<open>refresh\<close> throws, \<open>refresh\<close> is called once per accessory, in
  the order of the accessories, with the responses of that accessory's own endpoints in the
  order it declares them; in terms of the array \<open>responses\<close>, accessory \<open>i\<close> receives the
  \<open>N\<^sub>i\<close> responses that follow those of the accessories before it.
\<close>

theorem refreshDevicesParallel_regroups:
  assumes "\<forall>a \<in> set accessories. \<forall>e \<in> set (endpoints a).
             retrieveDeviceState m a e = Fulfilled (v a e)"
    and "\<forall>a \<in> set accessories. \<forall>z. \<not> refreshThrows m a z"
  shows "refreshDevicesParallel m accessories =
           map (\<lambda>a. (a, zipEndpointResponses m a (map (v a) (endpoints a)))) accessories
       \<and> (\<forall>responses. refresh_loop m accessories responses =
           map (\<lambda>i. (accessories ! i,
                      zipEndpointResponses m (accessories ! i)
                        (take (length (endpoints (accessories ! i)))
                           (drop (sum_list (map (\<lambda>a. length (endpoints a)) (take i accessories)))
                              responses))))
               [0..<length accessories])"
proof
  have "refresh_loop m accessories
          (concat (map (\<lambda>a. map (v a) (endpoints a)) accessories) @ []) =
        map (\<lambda>a. (a, zipEndpointResponses m a (map (v a) (endpoints a)))) accessories"
    by (rule refresh_loop_own_responses) (use assms(2) in simp_all)
  then show "refreshDevicesParallel m accessories =
      map (\<lambda>a. (a, zipEndpointResponses m a (map (v a) (endpoints a)))) accessories"
    by (simp add: refreshDevicesParallel_def queues_Fulfilled [OF assms(1)]
        promise_all_map_Fulfilled)
next
  show "\<forall>responses. refresh_loop m accessories responses =
           map (\<lambda>i. (accessories ! i,
                      zipEndpointResponses m (accessories ! i)
                        (take (length (endpoints (accessories ! i)))
                           (drop (sum_list (map (\<lambda>a. length (endpoints a)) (take i accessories)))
                              responses))))
               [0..<length accessories]"
    using refresh_loop_positions [OF assms(2)] by blast
qed

theorem refreshDevicesParallel_regroups_witness:
  "refreshDevicesParallel
     \<lparr>retrieveDeviceState = (\<lambda>a e. Fulfilled (barcode a @ '':'' @ e)),
      zipEndpointResponses = zipEndpointResponses_spec,
      refreshThrows = (\<lambda>a z. False)\<rparr>
     [\<lparr>barcode = ''A'', endpoints = [''control'', ''home'']\<rparr>,
      \<lparr>barcode = ''B'', endpoints = [''filter'']\<rparr>] =
   [(\<lparr>barcode = ''A'', endpoints = [''control'', ''home'']\<rparr>,
       [(''control'', ''A:control''), (''home'', ''A:home'')]),
    (\<lparr>barcode = ''B'', endpoints = [''filter'']\<rparr>, [(''filter'', ''B:filter'')])]
   \<and> refresh_loop
     \<lparr>retrieveDeviceState = (\<lambda>a e. Fulfilled (barcode a @ '':'' @ e)),
      zipEndpointResponses = zipEndpointResponses_spec,
      refreshThrows = (\<lambda>a z. False)\<rparr>
     [\<lparr>barcode = ''A'', endpoints = [''control'', ''home'']\<rparr>,
      \<lparr>barcode = ''B'', endpoints = [''filter'']\<rparr>]
     [''r0'', ''r1'', ''r2''] =
   [(\<lparr>barcode = ''A'', endpoints = [''control'', ''home'']\<rparr>,
       [(''control'', ''r0''), (''home'', ''r1'')]),
    (\<lparr>barcode = ''B'', endpoints = [''filter'']\<rparr>, [(''filter'', ''r2'')])]"
  using refreshDevicesParallel_regroups
    [of "[\<lparr>barcode = ''A'', endpoints = [''control'', ''home'']\<rparr>,
          \<lparr>barcode = ''B'', endpoints = [''filter'']\<rparr>]"
        "\<lparr>retrieveDeviceState = (\<lambda>a e. Fulfilled (barcode a @ '':'' @ e)),
          zipEndpointResponses = zipEndpointResponses_spec,
          refreshThrows = (\<lambda>a z. False)\<rparr>"
        "\<lambda>a e. barcode a @ '':'' @ e"]
  by (simp add: zipEndpointResponses_spec_def upt_conv_Cons del: upt_Suc)


end
